theory Spec2Isabelle
  imports Complex_Main "HOL-Library.Char_ord" "HOL-Library.List_Lexorder"
begin

section \<open>UrbanWell backend: data model\<close>

text \<open>
  The embedding follows \<^verbatim>\<open>urbanwell_nasa_backend.py\<close>. Python floats are modelled as
  \<^typ>\<open>real\<close>, Python ints as \<^typ>\<open>int\<close>, TEXT columns as \<^typ>\<open>string\<close> with the
  lexicographic (byte-wise) order SQLite uses for them.
\<close>

text \<open>The exceptions that the modelled code paths can raise (all subclasses of Exception).\<close>

datatype py_exn =
    ConnectionError
  | ImportError
  | AttributeError
  | TypeError
  | ValueError
  | KeyError
  | OverflowError
  | UnicodeEncodeError
  | DatabaseError

text \<open>The dictionaries returned by the three fetchers.\<close>

record air_obs =
  air_timestamp :: string
  air_no2 :: real
  air_o3 :: real
  air_pm25 :: real
  air_so2 :: real
  air_aqi :: int
  air_source :: string

record water_obs =
  water_timestamp :: string
  water_groundwater_level :: real
  water_precipitation :: real
  water_flood_risk :: string
  water_source :: string

record veg_obs =
  veg_timestamp :: string
  veg_ndvi :: real
  veg_evi :: real
  veg_green_coverage :: real
  veg_temperature :: real
  veg_source :: string

subsection \<open>The random module\<close>

text \<open>
  \<^verbatim>\<open>random.uniform(a, b)\<close> is \<^verbatim>\<open>a + (b - a) * random()\<close> with \<^verbatim>\<open>random()\<close> in
  \<open>[0, 1)\<close>; \<^verbatim>\<open>random.randint(a, b)\<close> is \<^verbatim>\<open>a + randbelow(b - a + 1)\<close>;
  \<^verbatim>\<open>random.choice(seq)\<close> is \<^verbatim>\<open>seq[randbelow(len(seq))]\<close>. The raw draws
  are inputs of the model.
\<close>

definition uniform :: "real \<Rightarrow> real \<Rightarrow> real \<Rightarrow> real" where
  "uniform a b u = a + (b - a) * u"

definition randint :: "int \<Rightarrow> int \<Rightarrow> nat \<Rightarrow> int" where
  "randint a b k = a + int k"

definition choice :: "'a list \<Rightarrow> nat \<Rightarrow> 'a" where
  "choice xs k = xs ! k"

definition unit_draw :: "real \<Rightarrow> bool" where
  "unit_draw u = (0 \<le> u \<and> u < 1)"

text \<open>The draws one air, water or vegetation dictionary consumes, and the clock reading.\<close>

record air_draws =
  d_now_air :: string
  d_no2 :: real
  d_o3 :: real
  d_pm25 :: real
  d_so2 :: real
  d_aqi :: nat

record water_draws =
  d_now_water :: string
  d_groundwater :: real
  d_precipitation :: real
  d_flood :: nat

record veg_draws =
  d_now_veg :: string
  d_ndvi :: real
  d_evi :: real
  d_green :: real
  d_temperature :: real

definition air_draws_ok :: "air_draws \<Rightarrow> bool" where
  "air_draws_ok r =
     (unit_draw (d_no2 r) \<and> unit_draw (d_o3 r) \<and> unit_draw (d_pm25 r) \<and>
      unit_draw (d_so2 r) \<and> d_aqi r < 101)"

definition water_draws_ok :: "water_draws \<Rightarrow> bool" where
  "water_draws_ok r =
     (unit_draw (d_groundwater r) \<and> unit_draw (d_precipitation r) \<and> d_flood r < 3)"

definition veg_draws_ok :: "veg_draws \<Rightarrow> bool" where
  "veg_draws_ok r =
     (unit_draw (d_ndvi r) \<and> unit_draw (d_evi r) \<and> unit_draw (d_green r) \<and>
      unit_draw (d_temperature r))"

subsection \<open>Simulation methods and the processing of vendor responses\<close>

definition simulate_air_quality_data :: "air_draws \<Rightarrow> air_obs" where
  "simulate_air_quality_data r =
     \<lparr> air_timestamp = d_now_air r,
       air_no2 = uniform 10 50 (d_no2 r),
       air_o3 = uniform 20 80 (d_o3 r),
       air_pm25 = uniform 5 35 (d_pm25 r),
       air_so2 = uniform 1 15 (d_so2 r),
       air_aqi = randint 50 150 (d_aqi r),
       air_source = ''SIMULATION'' \<rparr>"

definition simulate_water_data :: "water_draws \<Rightarrow> water_obs" where
  "simulate_water_data r =
     \<lparr> water_timestamp = d_now_water r,
       water_groundwater_level = uniform (- 20) 20 (d_groundwater r),
       water_precipitation = uniform 0 15 (d_precipitation r),
       water_flood_risk = choice [''Low'', ''Medium'', ''High''] (d_flood r),
       water_source = ''SIMULATION'' \<rparr>"

definition simulate_vegetation_data :: "veg_draws \<Rightarrow> veg_obs" where
  "simulate_vegetation_data r =
     \<lparr> veg_timestamp = d_now_veg r,
       veg_ndvi = uniform 0.2 0.8 (d_ndvi r),
       veg_evi = uniform 0.1 0.6 (d_evi r),
       veg_green_coverage = uniform 15 65 (d_green r),
       veg_temperature = uniform 20 35 (d_temperature r),
       veg_source = ''SIMULATION'' \<rparr>"

text \<open>
  The \<^verbatim>\<open>_process_nasa_*\<close> methods ignore the payload \<^verbatim>\<open>data\<close> and the coordinates:
  they build the dictionary from the same generators and only set another source tag.
  Nothing in their \<^verbatim>\<open>try\<close> block raises, so the handler is never entered.
\<close>

definition process_nasa_air_data :: "air_draws \<Rightarrow> air_obs" where
  "process_nasa_air_data r =
     \<lparr> air_timestamp = d_now_air r,
       air_no2 = uniform 10 50 (d_no2 r),
       air_o3 = uniform 20 80 (d_o3 r),
       air_pm25 = uniform 5 35 (d_pm25 r),
       air_so2 = uniform 1 15 (d_so2 r),
       air_aqi = randint 50 150 (d_aqi r),
       air_source = ''NASA_TEMPO_OMI'' \<rparr>"

definition process_nasa_water_data :: "water_draws \<Rightarrow> water_obs" where
  "process_nasa_water_data r =
     \<lparr> water_timestamp = d_now_water r,
       water_groundwater_level = uniform (- 20) 20 (d_groundwater r),
       water_precipitation = uniform 0 15 (d_precipitation r),
       water_flood_risk = choice [''Low'', ''Medium'', ''High''] (d_flood r),
       water_source = ''NASA_GRACE_GPM'' \<rparr>"

definition process_nasa_vegetation_data :: "veg_draws \<Rightarrow> veg_obs" where
  "process_nasa_vegetation_data r =
     \<lparr> veg_timestamp = d_now_veg r,
       veg_ndvi = uniform 0.2 0.8 (d_ndvi r),
       veg_evi = uniform 0.1 0.6 (d_evi r),
       veg_green_coverage = uniform 15 65 (d_green r),
       veg_temperature = uniform 20 35 (d_temperature r),
       veg_source = ''NASA_MODIS_LANDSAT'' \<rparr>"

text \<open>The documented closed ranges of the three domains.\<close>

definition air_in_range :: "air_obs \<Rightarrow> bool" where
  "air_in_range a =
     (10 \<le> air_no2 a \<and> air_no2 a \<le> 50 \<and> 20 \<le> air_o3 a \<and> air_o3 a \<le> 80 \<and>
      5 \<le> air_pm25 a \<and> air_pm25 a \<le> 35 \<and> 1 \<le> air_so2 a \<and> air_so2 a \<le> 15 \<and>
      50 \<le> air_aqi a \<and> air_aqi a \<le> 150)"

definition water_in_range :: "water_obs \<Rightarrow> bool" where
  "water_in_range w =
     (- 20 \<le> water_groundwater_level w \<and> water_groundwater_level w \<le> 20 \<and>
      0 \<le> water_precipitation w \<and> water_precipitation w \<le> 15 \<and>
      (water_flood_risk w = ''Low'' \<or> water_flood_risk w = ''Medium'' \<or>
       water_flood_risk w = ''High''))"

definition veg_in_range :: "veg_obs \<Rightarrow> bool" where
  "veg_in_range v =
     (0.2 \<le> veg_ndvi v \<and> veg_ndvi v \<le> 0.8 \<and> 0.1 \<le> veg_evi v \<and> veg_evi v \<le> 0.6 \<and>
      15 \<le> veg_green_coverage v \<and> veg_green_coverage v \<le> 65 \<and>
      20 \<le> veg_temperature v \<and> veg_temperature v \<le> 35)"

section \<open>Credentials and the engine mode\<close>

text \<open>
  \<^verbatim>\<open>NASAAPIClient\<close>: the credential strings, the optional API key, the flag
  \<^verbatim>\<open>authenticated\<close> (the engine mode: \<open>True\<close> is Live, \<open>False\<close> is Simulated) and the
  basic-auth pair of the shared session.
\<close>

record client =
  username :: string
  password :: string
  api_key :: string
  authenticated :: bool
  session_auth :: "(string \<times> string) option"

text \<open>
  What \<^verbatim>\<open>import earthaccess\<close> and \<^verbatim>\<open>earthaccess.login(...)\<close> do when
  \<^verbatim>\<open>setup_authentication\<close> runs: the import fails, the login returns, or the login raises.
\<close>

datatype earthaccess_login = EarthaccessMissing | LoginReturns | LoginRaises py_exn

text \<open>
  The inner handler \<^verbatim>\<open>except ImportError\<close> falls back to the requests session and sets
  the flag; every other exception reaches the outer handler, which clears it.
\<close>

definition setup_authentication :: "earthaccess_login \<Rightarrow> client \<Rightarrow> client" where
  "setup_authentication ea c =
     (case ea of
        LoginReturns \<Rightarrow> c\<lparr>authenticated := True\<rparr>
      | EarthaccessMissing \<Rightarrow>
          c\<lparr>session_auth := Some (username c, password c), authenticated := True\<rparr>
      | LoginRaises e \<Rightarrow>
          (if e = ImportError
           then c\<lparr>session_auth := Some (username c, password c), authenticated := True\<rparr>
           else c\<lparr>authenticated := False\<rparr>))"

definition NASAAPIClient_init :: "string \<Rightarrow> string \<Rightarrow> string \<Rightarrow> earthaccess_login \<Rightarrow> client" where
  "NASAAPIClient_init u p k ea =
     (let self = \<lparr> username = u, password = p, api_key = k, authenticated = False,
                    session_auth = None \<rparr>
      in if u \<noteq> [] \<and> p \<noteq> [] then setup_authentication ea self else self)"

text \<open>
  The placeholder of the \<^verbatim>\<open>.env\<close> template, as \<^verbatim>\<open>check-nasa-installation.py\<close> knows it.
  The backend itself never mentions it.
\<close>

definition placeholder :: string where
  "placeholder = ''your_earthdata_username_here''"

text \<open>The mode resolution as the specification words it.\<close>

definition spec_live :: "string \<Rightarrow> string \<Rightarrow> bool" where
  "spec_live u p = (u \<noteq> [] \<and> p \<noteq> [] \<and> u \<noteq> placeholder \<and> p \<noteq> placeholder)"

section \<open>The vendor and the three fetchers\<close>

text \<open>
  Python values that reach the code from JSON bodies and from SQLite cells: \<^verbatim>\<open>None\<close>,
  booleans, ints (unbounded), floats, strings, and everything else (lists, dictionaries).
  \<open>VStr\<close> is a string that UTF-8 can encode; \<open>VUnencodable\<close> is one that it cannot, as
  a JSON string with the lone surrogate U+D800. The floats are the finite ones: NaN and
  the infinities are left out (as a coordinate they fail the range comparison of
  \<^verbatim>\<open>add_location\<close> like a number out of range).
\<close>

datatype val = VNone | VBool bool | VInt int | VFloat real | VStr string | VUnencodable | VOther

text \<open>\<^verbatim>\<open>x - d\<close> and \<^verbatim>\<open>x + d\<close> for a float \<open>d\<close>: a TypeError unless \<open>x\<close> is a number (or a bool).\<close>

definition num_of :: "val \<Rightarrow> py_exn + real" where
  "num_of v =
     (case v of
        VInt i \<Rightarrow> Inr (real_of_int i)
      | VFloat x \<Rightarrow> Inr x
      | VBool b \<Rightarrow> Inr (if b then 1 else 0)
      | _ \<Rightarrow> Inl TypeError)"

definition bounding_box :: "val \<Rightarrow> val \<Rightarrow> real \<Rightarrow> py_exn + (real \<times> real \<times> real \<times> real)" where
  "bounding_box longitude latitude h =
     (case num_of longitude of
        Inl e \<Rightarrow> Inl e
      | Inr lon \<Rightarrow>
          (case num_of latitude of
             Inl e \<Rightarrow> Inl e
           | Inr lat \<Rightarrow> Inr (lon - h, lat - h, lon + h, lat + h)))"

record http_response =
  status_code :: nat
  json_ok :: bool

text \<open>
  The outside world of a fetch: what \<^verbatim>\<open>session.get\<close> answers for a URL and its
  parameters, whether \<^verbatim>\<open>earthaccess\<close> can be imported, how many results
  \<^verbatim>\<open>earthaccess.search_data\<close> finds, what \<^verbatim>\<open>earthaccess.download\<close> does, and the date
  of today. Each call may raise.
\<close>

record vendor =
  session_get :: "string \<Rightarrow> (string \<times> val) list \<Rightarrow> py_exn + http_response"
  earthaccess_installed :: bool
  search_data :: "string \<Rightarrow> (real \<times> real \<times> real \<times> real) \<Rightarrow> string \<times> string \<Rightarrow> py_exn + nat"
  download :: "nat \<Rightarrow> py_exn + unit"
  today :: string

definition base_url :: string where
  "base_url = ''https://api.nasa.gov''"

definition assets_url :: string where
  "assets_url = base_url @ ''/planetary/earth/assets''"

definition imagery_url :: string where
  "imagery_url = base_url @ ''/planetary/earth/imagery''"

definition opendata_url :: string where
  "opendata_url = ''https://data.nasa.gov/api/views/xxxx-xxxx/rows.json''"

definition assets_params :: "client \<Rightarrow> val \<Rightarrow> val \<Rightarrow> string \<Rightarrow> (string \<times> val) list" where
  "assets_params self latitude longitude date =
     [(''lon'', longitude), (''lat'', latitude), (''date'', VStr date),
      (''dim'', VFloat 0.10), (''api_key'', VStr (api_key self))]"

definition imagery_params :: "client \<Rightarrow> val \<Rightarrow> val \<Rightarrow> string \<Rightarrow> (string \<times> val) list" where
  "imagery_params self latitude longitude date =
     [(''lon'', longitude), (''lat'', latitude), (''date'', VStr date),
      (''api_key'', VStr (api_key self))]"

text \<open>
  Method 1 of each fetcher. \<open>Inr None\<close> means that control falls through to method 2;
  \<^verbatim>\<open>response.json()\<close> raises ValueError on a body that is not JSON.
\<close>

definition method1 ::
  "client \<Rightarrow> vendor \<Rightarrow> string \<Rightarrow> (string \<times> val) list \<Rightarrow> 'a \<Rightarrow> py_exn + 'a option" where
  "method1 self v url params processed =
     (if api_key self \<noteq> [] then
        (case session_get v url params of
           Inl e \<Rightarrow> Inl e
         | Inr response \<Rightarrow>
             (if status_code response = 200
              then (if json_ok response then Inr (Some processed) else Inl ValueError)
              else Inr None))
      else Inr None)"

text \<open>
  Method 2 of the air fetcher. \<^verbatim>\<open>except ImportError\<close> guards the whole inner block, so an
  ImportError from any call in it falls through like a failed import. The class has no
  method \<^verbatim>\<open>_process_omi_data\<close>: reaching that call raises AttributeError.
\<close>

definition import_guard :: "py_exn \<Rightarrow> py_exn + 'a option" where
  "import_guard e = (if e = ImportError then Inr None else Inl e)"

definition air_method2 :: "vendor \<Rightarrow> val \<Rightarrow> val \<Rightarrow> string \<Rightarrow> py_exn + air_obs option" where
  "air_method2 v latitude longitude date =
     (if \<not> earthaccess_installed v then Inr None
      else
        (case bounding_box longitude latitude 0.1 of
           Inl e \<Rightarrow> import_guard e
         | Inr box \<Rightarrow>
             (case search_data v ''OMNO2d'' box (date, date) of
                Inl e \<Rightarrow> import_guard e
              | Inr results \<Rightarrow>
                  (if results \<noteq> 0 then
                     (case download v (min results 1) of
                        Inl e \<Rightarrow> import_guard e
                      | Inr files \<Rightarrow> Inl AttributeError)
                   else Inr None))))"

text \<open>The water and vegetation fetchers call a missing method right after the search.\<close>

definition search_method2 ::
  "vendor \<Rightarrow> string \<Rightarrow> real \<Rightarrow> val \<Rightarrow> val \<Rightarrow> string \<Rightarrow> py_exn + 'a option" where
  "search_method2 v short_name h latitude longitude date =
     (if \<not> earthaccess_installed v then Inr None
      else
        (case bounding_box longitude latitude h of
           Inl e \<Rightarrow> import_guard e
         | Inr box \<Rightarrow>
             (case search_data v short_name box (date, date) of
                Inl e \<Rightarrow> import_guard e
              | Inr results \<Rightarrow>
                  (if results \<noteq> 0 then Inl AttributeError else Inr None))))"

text \<open>Method 3: the bare \<^verbatim>\<open>except:\<close> swallows everything and simulation follows.\<close>

definition fetch_nasa_opendata_air_quality :: "vendor \<Rightarrow> air_draws \<Rightarrow> air_obs" where
  "fetch_nasa_opendata_air_quality v r =
     (case session_get v opendata_url [] of
        Inl e \<Rightarrow> simulate_air_quality_data r
      | Inr response \<Rightarrow>
          (if status_code response = 200 \<and> json_ok response
           then process_nasa_air_data r
           else simulate_air_quality_data r))"

definition fetch_nasa_precipitation_data :: "water_draws \<Rightarrow> water_obs" where
  "fetch_nasa_precipitation_data r = simulate_water_data r"

definition fetch_nasa_landsat_data :: "veg_draws \<Rightarrow> veg_obs" where
  "fetch_nasa_landsat_data r = simulate_vegetation_data r"

text \<open>The \<^verbatim>\<open>try\<close> blocks of the three fetchers: methods 1, 2, 3 in this order.\<close>

definition air_try :: "client \<Rightarrow> vendor \<Rightarrow> air_draws \<Rightarrow> val \<Rightarrow> val \<Rightarrow> string \<Rightarrow> py_exn + air_obs" where
  "air_try self v r latitude longitude date =
     (case method1 self v assets_url (assets_params self latitude longitude date)
             (process_nasa_air_data r) of
        Inl e \<Rightarrow> Inl e
      | Inr (Some obs) \<Rightarrow> Inr obs
      | Inr None \<Rightarrow>
          (case air_method2 v latitude longitude date of
             Inl e \<Rightarrow> Inl e
           | Inr (Some obs) \<Rightarrow> Inr obs
           | Inr None \<Rightarrow> Inr (fetch_nasa_opendata_air_quality v r)))"

definition water_try :: "client \<Rightarrow> vendor \<Rightarrow> water_draws \<Rightarrow> val \<Rightarrow> val \<Rightarrow> string \<Rightarrow> py_exn + water_obs" where
  "water_try self v r latitude longitude date =
     (case method1 self v imagery_url (imagery_params self latitude longitude date)
             (process_nasa_water_data r) of
        Inl e \<Rightarrow> Inl e
      | Inr (Some obs) \<Rightarrow> Inr obs
      | Inr None \<Rightarrow>
          (case search_method2 v ''TELLUS_GRAC_L3_GWS_RL06_LND_v04'' 0.5 latitude longitude date of
             Inl e \<Rightarrow> Inl e
           | Inr (Some obs) \<Rightarrow> Inr obs
           | Inr None \<Rightarrow> Inr (fetch_nasa_precipitation_data r)))"

definition vegetation_try :: "client \<Rightarrow> vendor \<Rightarrow> veg_draws \<Rightarrow> val \<Rightarrow> val \<Rightarrow> string \<Rightarrow> py_exn + veg_obs" where
  "vegetation_try self v r latitude longitude date =
     (case method1 self v assets_url (assets_params self latitude longitude date)
             (process_nasa_vegetation_data r) of
        Inl e \<Rightarrow> Inl e
      | Inr (Some obs) \<Rightarrow> Inr obs
      | Inr None \<Rightarrow>
          (case search_method2 v ''MOD13Q1'' 0.1 latitude longitude date of
             Inl e \<Rightarrow> Inl e
           | Inr (Some obs) \<Rightarrow> Inr obs
           | Inr None \<Rightarrow> Inr (fetch_nasa_landsat_data r)))"

text \<open>
  The public fetchers. The result type keeps an exception as \<open>Inl\<close>: the handler
  \<^verbatim>\<open>except Exception\<close> turns whatever the \<^verbatim>\<open>try\<close> block raised into a simulation.
\<close>

definition default_date :: "vendor \<Rightarrow> string option \<Rightarrow> string" where
  "default_date v date = (case date of None \<Rightarrow> today v | Some d \<Rightarrow> d)"

definition get_air_quality_data ::
  "client \<Rightarrow> vendor \<Rightarrow> air_draws \<Rightarrow> val \<Rightarrow> val \<Rightarrow> string option \<Rightarrow> py_exn + air_obs" where
  "get_air_quality_data self v r latitude longitude date =
     (if \<not> authenticated self then Inr (simulate_air_quality_data r)
      else
        (case air_try self v r latitude longitude (default_date v date) of
           Inr obs \<Rightarrow> Inr obs
         | Inl e \<Rightarrow> Inr (simulate_air_quality_data r)))"

definition get_water_security_data ::
  "client \<Rightarrow> vendor \<Rightarrow> water_draws \<Rightarrow> val \<Rightarrow> val \<Rightarrow> string option \<Rightarrow> py_exn + water_obs" where
  "get_water_security_data self v r latitude longitude date =
     (if \<not> authenticated self then Inr (simulate_water_data r)
      else
        (case water_try self v r latitude longitude (default_date v date) of
           Inr obs \<Rightarrow> Inr obs
         | Inl e \<Rightarrow> Inr (simulate_water_data r)))"

definition get_vegetation_data ::
  "client \<Rightarrow> vendor \<Rightarrow> veg_draws \<Rightarrow> val \<Rightarrow> val \<Rightarrow> string option \<Rightarrow> py_exn + veg_obs" where
  "get_vegetation_data self v r latitude longitude date =
     (if \<not> authenticated self then Inr (simulate_vegetation_data r)
      else
        (case vegetation_try self v r latitude longitude (default_date v date) of
           Inr obs \<Rightarrow> Inr obs
         | Inl e \<Rightarrow> Inr (simulate_vegetation_data r)))"

section \<open>The database\<close>

text \<open>
  The five tables of \<^verbatim>\<open>init_db\<close>, each a list of rows in insertion order. An observation
  row is the key columns \<^verbatim>\<open>id\<close>, \<^verbatim>\<open>location_id\<close> and the columns of the observation
  (\<^verbatim>\<open>data_source\<close> holds its source tag). SQLite cells are dynamically typed, so the cells
  of \<^verbatim>\<open>locations\<close> hold the values that were bound to them. The columns filled by
  \<^verbatim>\<open>DEFAULT CURRENT_TIMESTAMP\<close> are left out: no modelled operation reads them.
\<close>

record location =
  loc_id :: int
  loc_name :: val
  loc_latitude :: val
  loc_longitude :: val
  loc_population :: val
  loc_area :: val

record 'a row =
  row_id :: int
  location_id :: int
  obs :: 'a

record api_log =
  log_id :: int
  endpoint :: string
  log_latitude :: val
  log_longitude :: val
  response_status :: string

record db =
  locations :: "location list"
  air_quality :: "air_obs row list"
  water_data :: "water_obs row list"
  vegetation :: "veg_obs row list"
  api_logs :: "api_log list"

definition empty_db :: db where
  "empty_db = \<lparr> locations = [], air_quality = [], water_data = [], vegetation = [],
                 api_logs = [] \<rparr>"

text \<open>An \<^verbatim>\<open>INTEGER PRIMARY KEY\<close> left out of an INSERT: one more than the largest in use.\<close>

definition next_rowid :: "int list \<Rightarrow> int" where
  "next_rowid ids = fold max ids 0 + 1"

text \<open>
  A Python int is bound to a statement as a 64-bit SQLite INTEGER; beyond that range the
  \<^verbatim>\<open>sqlite3\<close> module raises OverflowError before the statement runs.
\<close>

definition sqlite_int_ok :: "int \<Rightarrow> bool" where
  "sqlite_int_ok n = (- (2 ^ 63) \<le> n \<and> n < 2 ^ 63)"

definition new_delhi :: location where
  "new_delhi =
     \<lparr> loc_id = 1, loc_name = VStr ''New Delhi'', loc_latitude = VFloat 28.6139,
       loc_longitude = VFloat 77.2090, loc_population = VInt 32000000, loc_area = VFloat 1484 \<rparr>"

definition sample_locations :: "location list" where
  "sample_locations =
     [new_delhi,
      \<lparr> loc_id = 2, loc_name = VStr ''Mumbai'', loc_latitude = VFloat 19.0760,
        loc_longitude = VFloat 72.8777, loc_population = VInt 21000000, loc_area = VFloat 603 \<rparr>,
      \<lparr> loc_id = 3, loc_name = VStr ''Bangalore'', loc_latitude = VFloat 12.9716,
        loc_longitude = VFloat 77.5946, loc_population = VInt 13000000, loc_area = VFloat 741 \<rparr>,
      \<lparr> loc_id = 4, loc_name = VStr ''Chennai'', loc_latitude = VFloat 13.0827,
        loc_longitude = VFloat 80.2707, loc_population = VInt 11000000, loc_area = VFloat 426 \<rparr>,
      \<lparr> loc_id = 5, loc_name = VStr ''Kolkata'', loc_latitude = VFloat 22.5726,
        loc_longitude = VFloat 88.3639, loc_population = VInt 15000000, loc_area = VFloat 1886 \<rparr>,
      \<lparr> loc_id = 6, loc_name = VStr ''Hyderabad'', loc_latitude = VFloat 17.3850,
        loc_longitude = VFloat 78.4867, loc_population = VInt 10500000, loc_area = VFloat 650 \<rparr>]"

definition init_db :: "db \<Rightarrow> db" where
  "init_db d = (if length (locations d) = 0 then d\<lparr>locations := sample_locations\<rparr> else d)"

text \<open>
  A connection of the \<^verbatim>\<open>sqlite3\<close> module: the durable database and the view of the open
  transaction. An INSERT changes only the view; \<^verbatim>\<open>commit\<close> makes the view durable;
  \<^verbatim>\<open>close\<close> drops whatever was not committed and leaves the durable database.
\<close>

record connection =
  committed :: db
  pending :: db

definition get_db :: "db \<Rightarrow> connection" where
  "get_db d = \<lparr> committed = d, pending = d \<rparr>"

definition commit :: "connection \<Rightarrow> connection" where
  "commit conn = conn\<lparr>committed := pending conn\<rparr>"

definition close :: "connection \<Rightarrow> db" where
  "close conn = committed conn"

text \<open>
  The statements of a dashboard query that the store may reject. A rejected statement
  raises and changes nothing.
\<close>

datatype db_step =
  InsertAir | InsertWater | InsertVegetation | CommitObservations | InsertApiLog | CommitLog

definition insert_air :: "int \<Rightarrow> air_obs \<Rightarrow> connection \<Rightarrow> connection" where
  "insert_air lid a conn =
     conn\<lparr>pending := (pending conn)\<lparr>air_quality := air_quality (pending conn) @
        [\<lparr> row_id = next_rowid (map row_id (air_quality (pending conn))),
           location_id = lid, obs = a \<rparr>]\<rparr>\<rparr>"

definition insert_water :: "int \<Rightarrow> water_obs \<Rightarrow> connection \<Rightarrow> connection" where
  "insert_water lid w conn =
     conn\<lparr>pending := (pending conn)\<lparr>water_data := water_data (pending conn) @
        [\<lparr> row_id = next_rowid (map row_id (water_data (pending conn))),
           location_id = lid, obs = w \<rparr>]\<rparr>\<rparr>"

definition insert_vegetation :: "int \<Rightarrow> veg_obs \<Rightarrow> connection \<Rightarrow> connection" where
  "insert_vegetation lid g conn =
     conn\<lparr>pending := (pending conn)\<lparr>vegetation := vegetation (pending conn) @
        [\<lparr> row_id = next_rowid (map row_id (vegetation (pending conn))),
           location_id = lid, obs = g \<rparr>]\<rparr>\<rparr>"

definition insert_api_log :: "val \<Rightarrow> val \<Rightarrow> connection \<Rightarrow> connection" where
  "insert_api_log lat lon conn =
     conn\<lparr>pending := (pending conn)\<lparr>api_logs := api_logs (pending conn) @
        [\<lparr> log_id = next_rowid (map log_id (api_logs (pending conn))),
           endpoint = ''dashboard'', log_latitude = lat, log_longitude = lon,
           response_status = ''success'' \<rparr>]\<rparr>\<rparr>"

definition execute ::
  "(db_step \<Rightarrow> bool) \<Rightarrow> db_step \<Rightarrow> (connection \<Rightarrow> connection) \<Rightarrow> connection \<Rightarrow> py_exn + connection" where
  "execute faults step f conn = (if faults step then Inl DatabaseError else Inr (f conn))"

text \<open>\<^verbatim>\<open>if air_data: cursor.execute(...)\<close>: a falsy value (\<open>None\<close>) skips the INSERT.\<close>

definition store ::
  "(db_step \<Rightarrow> bool) \<Rightarrow> db_step \<Rightarrow> ('a \<Rightarrow> connection \<Rightarrow> connection) \<Rightarrow> 'a option \<Rightarrow> connection \<Rightarrow>
     py_exn + connection" where
  "store faults step ins data conn =
     (case data of None \<Rightarrow> Inr conn | Some x \<Rightarrow> execute faults step (ins x) conn)"

section \<open>The dashboard query\<close>

datatype http_error = BadRequest string | NotFound string | ServerError string

text \<open>An exception that no handler of a view catches becomes the framework's 500.\<close>

definition internal_error :: http_error where
  "internal_error = ServerError ''Internal Server Error''"

text \<open>\<^verbatim>\<open>SELECT * FROM locations WHERE id = ?\<close> with \<^verbatim>\<open>fetchone()\<close>.\<close>

definition select_location :: "db \<Rightarrow> int \<Rightarrow> py_exn + location option" where
  "select_location d lid =
     (if sqlite_int_ok lid then Inr (find (\<lambda>l. loc_id l = lid) (locations d))
      else Inl OverflowError)"

text \<open>The wellbeing index before clamping, as the source computes it.\<close>

definition wellbeing_index :: "air_obs option \<Rightarrow> water_obs option \<Rightarrow> veg_obs option \<Rightarrow> real" where
  "wellbeing_index air_dict water_dict vegetation_dict =
     (let air_score = (case air_dict of Some a \<Rightarrow> real_of_int (max 0 (100 - air_aqi a)) | None \<Rightarrow> 50);
          water_score = (case water_dict of Some w \<Rightarrow> 50 + water_groundwater_level w * 2 | None \<Rightarrow> 50);
          green_score = (case vegetation_dict of Some g \<Rightarrow> veg_green_coverage g | None \<Rightarrow> 50)
      in air_score * 0.4 + water_score * 0.3 + green_score * 0.3)"

record dashboard_data =
  dd_location :: location
  dd_air_quality :: "air_obs option"
  dd_water_security :: "water_obs option"
  dd_vegetation :: "veg_obs option"
  dd_wellbeing_index :: real
  dd_nasa_api_status :: bool
  dd_last_updated :: string

text \<open>What one dashboard query meets: the vendor, the random draws, the store, the clock.\<close>

record query_env =
  q_vendor_air :: vendor
  q_vendor_water :: vendor
  q_vendor_veg :: vendor
  q_air :: air_draws
  q_water :: water_draws
  q_veg :: veg_draws
  q_faults :: "db_step \<Rightarrow> bool"
  q_now :: string

text \<open>
  The \<^verbatim>\<open>try\<close> block of \<^verbatim>\<open>get_dashboard_data\<close>. The result carries the connection as it is
  when the block ends or raises. A dictionary returned by a fetcher is never empty, so it
  is truthy: \<open>Some\<close>.
\<close>

definition dashboard_try ::
  "client \<Rightarrow> query_env \<Rightarrow> connection \<Rightarrow> int \<Rightarrow> location \<Rightarrow> connection \<times> (py_exn + dashboard_data)" where
  "dashboard_try self env conn lid loc =
     (case get_air_quality_data self (q_vendor_air env) (q_air env)
             (loc_latitude loc) (loc_longitude loc) None of
        Inl e \<Rightarrow> (conn, Inl e)
      | Inr air \<Rightarrow>
     (case get_water_security_data self (q_vendor_water env) (q_water env)
             (loc_latitude loc) (loc_longitude loc) None of
        Inl e \<Rightarrow> (conn, Inl e)
      | Inr water \<Rightarrow>
     (case get_vegetation_data self (q_vendor_veg env) (q_veg env)
             (loc_latitude loc) (loc_longitude loc) None of
        Inl e \<Rightarrow> (conn, Inl e)
      | Inr veg \<Rightarrow>
     (let air_dict = Some air; water_dict = Some water; vegetation_dict = Some veg in
     (case store (q_faults env) InsertAir (insert_air lid) air_dict conn of
        Inl e \<Rightarrow> (conn, Inl e)
      | Inr c1 \<Rightarrow>
     (case store (q_faults env) InsertWater (insert_water lid) water_dict c1 of
        Inl e \<Rightarrow> (c1, Inl e)
      | Inr c2 \<Rightarrow>
     (case store (q_faults env) InsertVegetation (insert_vegetation lid) vegetation_dict c2 of
        Inl e \<Rightarrow> (c2, Inl e)
      | Inr c3 \<Rightarrow>
     (case execute (q_faults env) CommitObservations commit c3 of
        Inl e \<Rightarrow> (c3, Inl e)
      | Inr c4 \<Rightarrow>
     (let index = wellbeing_index air_dict water_dict vegetation_dict in
     (case execute (q_faults env) InsertApiLog
             (insert_api_log (loc_latitude loc) (loc_longitude loc)) c4 of
        Inl e \<Rightarrow> (c4, Inl e)
      | Inr c5 \<Rightarrow>
     (case execute (q_faults env) CommitLog commit c5 of
        Inl e \<Rightarrow> (c5, Inl e)
      | Inr c6 \<Rightarrow>
          (c6, Inr \<lparr> dd_location = loc, dd_air_quality = air_dict,
                     dd_water_security = water_dict, dd_vegetation = vegetation_dict,
                     dd_wellbeing_index = min 100 (max 0 index),
                     dd_nasa_api_status = authenticated self,
                     dd_last_updated = q_now env \<rparr>))))))))))))"

text \<open>
  The endpoint: the durable database after the query, and the response. The lookup of the
  location stands before the \<^verbatim>\<open>try\<close>: when it raises, no handler catches. That return
  and the not-found return leave the connection open; nothing was written through it.
\<close>

definition get_dashboard_data ::
  "client \<Rightarrow> query_env \<Rightarrow> db \<Rightarrow> int \<Rightarrow> db \<times> (http_error + dashboard_data)" where
  "get_dashboard_data self env d lid =
     (let conn = get_db d in
      case select_location (pending conn) lid of
        Inl e \<Rightarrow> (committed conn, Inl internal_error)
      | Inr None \<Rightarrow> (committed conn, Inl (NotFound ''Location not found''))
      | Inr (Some loc) \<Rightarrow>
          (case dashboard_try self env conn lid loc of
             (conn', Inl e) \<Rightarrow> (close conn', Inl (ServerError ''Failed to retrieve NASA data''))
           | (conn', Inr data) \<Rightarrow> (close conn', Inr data)))"

text \<open>The reducer as the specification words it.\<close>

definition clamp :: "real \<Rightarrow> real \<Rightarrow> real \<Rightarrow> real" where
  "clamp x lo hi = (if x < lo then lo else if hi < x then hi else x)"

definition spec_index :: "air_obs option \<Rightarrow> water_obs option \<Rightarrow> veg_obs option \<Rightarrow> real" where
  "spec_index air water veg =
     clamp ((case air of None \<Rightarrow> 50 | Some a \<Rightarrow> max 0 (100 - real_of_int (air_aqi a))) * 0.4
          + (case water of None \<Rightarrow> 50 | Some w \<Rightarrow> 50 + water_groundwater_level w * 2) * 0.3
          + (case veg of None \<Rightarrow> 50 | Some g \<Rightarrow> veg_green_coverage g) * 0.3) 0 100"

section \<open>Registering a location\<close>

text \<open>
  \<^verbatim>\<open>request.json\<close>: any JSON value. A dictionary is kept as an association list with one
  entry per key, a string as its bytes.
\<close>

datatype body =
    BodyNone
  | BodyDict "(string \<times> val) list"
  | BodyList "val list"
  | BodyStr string
  | BodyBool bool
  | BodyInt int
  | BodyFloat real

text \<open>\<^verbatim>\<open>not data\<close>.\<close>

definition falsy :: "body \<Rightarrow> bool" where
  "falsy data =
     (case data of
        BodyNone \<Rightarrow> True
      | BodyDict kvs \<Rightarrow> kvs = []
      | BodyList xs \<Rightarrow> xs = []
      | BodyStr s \<Rightarrow> s = []
      | BodyBool b \<Rightarrow> \<not> b
      | BodyInt i \<Rightarrow> i = 0
      | BodyFloat x \<Rightarrow> x = 0)"

text \<open>\<^verbatim>\<open>k in s\<close> for two strings: \<open>k\<close> occurs in \<open>s\<close>.\<close>

fun starts_with :: "string \<Rightarrow> string \<Rightarrow> bool" where
  "starts_with [] s = True"
| "starts_with (k # ks) [] = False"
| "starts_with (k # ks) (c # s) = (k = c \<and> starts_with ks s)"

fun substring_of :: "string \<Rightarrow> string \<Rightarrow> bool" where
  "substring_of k [] = (k = [])"
| "substring_of k (c # s) = (starts_with k (c # s) \<or> substring_of k s)"

text \<open>
  \<^verbatim>\<open>k in data\<close>: a key of a dictionary, an element of a list, a part of a string; a
  TypeError for a value that is not iterable.
\<close>

definition has_key :: "body \<Rightarrow> string \<Rightarrow> py_exn + bool" where
  "has_key data k =
     (case data of
        BodyDict kvs \<Rightarrow> Inr (map_of kvs k \<noteq> None)
      | BodyList xs \<Rightarrow> Inr (VStr k \<in> set xs)
      | BodyStr s \<Rightarrow> Inr (substring_of k s)
      | _ \<Rightarrow> Inl TypeError)"

text \<open>\<^verbatim>\<open>all(k in data for k in ks)\<close>: stops at the first key that is not there.\<close>

fun all_in :: "body \<Rightarrow> string list \<Rightarrow> py_exn + bool" where
  "all_in data [] = Inr True"
| "all_in data (k # ks) =
     (case has_key data k of
        Inl e \<Rightarrow> Inl e
      | Inr present \<Rightarrow> if present then all_in data ks else Inr False)"

text \<open>\<^verbatim>\<open>data[k]\<close> and \<^verbatim>\<open>data.get(k)\<close>: only a dictionary takes a string between the brackets.\<close>

definition getitem :: "body \<Rightarrow> string \<Rightarrow> py_exn + val" where
  "getitem data k =
     (case data of
        BodyDict kvs \<Rightarrow> (case map_of kvs k of None \<Rightarrow> Inl KeyError | Some x \<Rightarrow> Inr x)
      | _ \<Rightarrow> Inl TypeError)"

definition dict_get :: "(string \<times> val) list \<Rightarrow> string \<Rightarrow> val" where
  "dict_get kvs k = (case map_of kvs k of None \<Rightarrow> VNone | Some x \<Rightarrow> x)"

definition get_or_none :: "body \<Rightarrow> string \<Rightarrow> py_exn + val" where
  "get_or_none data k =
     (case data of
        BodyDict kvs \<Rightarrow> Inr (dict_get kvs k)
      | _ \<Rightarrow> Inl AttributeError)"

text \<open>The chained comparison \<^verbatim>\<open>lo <= x <= hi\<close>; comparing a number with a non-number raises.\<close>

definition between :: "real \<Rightarrow> val \<Rightarrow> real \<Rightarrow> py_exn + bool" where
  "between lo x hi = (case num_of x of Inl e \<Rightarrow> Inl e | Inr y \<Rightarrow> Inr (lo \<le> y \<and> y \<le> hi))"

definition missing_fields :: http_error where
  "missing_fields = BadRequest ''Missing required fields: name, latitude, longitude''"

definition invalid_coordinates :: http_error where
  "invalid_coordinates = BadRequest ''Invalid coordinates''"

text \<open>
  Binding one value to the INSERT: an int beyond 64 bits, a string that UTF-8 cannot
  encode and a list or dictionary raise. The values are bound in the order of the
  statement, so the first one that cannot be bound decides the exception.
\<close>

definition bind_error :: "val \<Rightarrow> py_exn option" where
  "bind_error v =
     (case v of
        VInt i \<Rightarrow> if sqlite_int_ok i then None else Some OverflowError
      | VUnencodable \<Rightarrow> Some UnicodeEncodeError
      | VOther \<Rightarrow> Some DatabaseError
      | _ \<Rightarrow> None)"

fun first_bind_error :: "val list \<Rightarrow> py_exn option" where
  "first_bind_error [] = None"
| "first_bind_error (v # vs) =
     (case bind_error v of Some e \<Rightarrow> Some e | None \<Rightarrow> first_bind_error vs)"

definition insert_location :: "val \<Rightarrow> val \<Rightarrow> val \<Rightarrow> val \<Rightarrow> val \<Rightarrow> connection \<Rightarrow> connection" where
  "insert_location name lat lon population area conn =
     conn\<lparr>pending := (pending conn)\<lparr>locations := locations (pending conn) @
        [\<lparr> loc_id = next_rowid (map loc_id (locations (pending conn))),
           loc_name = name, loc_latitude = lat, loc_longitude = lon,
           loc_population = population, loc_area = area \<rparr>]\<rparr>\<rparr>"

text \<open>
  \<^verbatim>\<open>cursor.execute\<close> of the INSERT: it raises when a value cannot be bound, when
  \<^verbatim>\<open>name\<close> is \<open>None\<close> (the column is NOT NULL) and when the store rejects it (\<open>fault\<close>).
\<close>

definition execute_insert_location ::
  "bool \<Rightarrow> val \<Rightarrow> val \<Rightarrow> val \<Rightarrow> val \<Rightarrow> val \<Rightarrow> connection \<Rightarrow> py_exn + connection" where
  "execute_insert_location fault name lat lon population area conn =
     (case first_bind_error [name, lat, lon, population, area] of
        Some e \<Rightarrow> Inl e
      | None \<Rightarrow>
          if name = VNone \<or> fault then Inl DatabaseError
          else Inr (insert_location name lat lon population area conn))"

text \<open>
  The part of \<^verbatim>\<open>add_location\<close> after the required-fields check. \<^verbatim>\<open>or\<close> short-circuits:
  the longitude is looked up and compared only when the latitude is in range.
\<close>

definition add_location_checked ::
  "db \<Rightarrow> body \<Rightarrow> bool \<Rightarrow> py_exn + (db \<times> (http_error + int))" where
  "add_location_checked d data fault =
     (case getitem data ''latitude'' of Inl e \<Rightarrow> Inl e | Inr lat \<Rightarrow>
     (case between (- 90) lat 90 of Inl e \<Rightarrow> Inl e | Inr lat_ok \<Rightarrow>
        if \<not> lat_ok then Inr (d, Inl invalid_coordinates)
        else
     (case getitem data ''longitude'' of Inl e \<Rightarrow> Inl e | Inr lon \<Rightarrow>
     (case between (- 180) lon 180 of Inl e \<Rightarrow> Inl e | Inr lon_ok \<Rightarrow>
        if \<not> lon_ok then Inr (d, Inl invalid_coordinates)
        else
     (case getitem data ''name'' of Inl e \<Rightarrow> Inl e | Inr name \<Rightarrow>
     (case get_or_none data ''population'' of Inl e \<Rightarrow> Inl e | Inr population \<Rightarrow>
     (case get_or_none data ''area'' of Inl e \<Rightarrow> Inl e | Inr area \<Rightarrow>
     (case execute_insert_location fault name lat lon population area (get_db d) of
        Inl e \<Rightarrow> Inl e
      | Inr conn' \<Rightarrow>
          (let new_id = loc_id (last (locations (pending conn')))
           in Inr (close (commit conn'), Inr new_id))))))))))"

text \<open>The endpoint. An exception that no handler catches becomes the framework's 500.\<close>

definition add_location :: "db \<Rightarrow> body \<Rightarrow> bool \<Rightarrow> db \<times> (http_error + int)" where
  "add_location d data fault =
     (if falsy data then (d, Inl missing_fields)
      else
        (case all_in data [''name'', ''latitude'', ''longitude''] of
           Inl e \<Rightarrow> (d, Inl internal_error)
         | Inr present \<Rightarrow>
             if \<not> present then (d, Inl missing_fields)
             else
               (case add_location_checked d data fault of
                  Inl e \<Rightarrow> (d, Inl internal_error)
                | Inr r \<Rightarrow> r)))"


section \<open>History and alerts\<close>

text \<open>
  \<^verbatim>\<open>WHERE location_id = ? ORDER BY timestamp DESC LIMIT ?\<close>. The timestamps are TEXT and
  compare as strings. Among equal timestamps SQL fixes no order; the model takes the
  later row first. A negative LIMIT means no limit in SQLite.
\<close>

definition order_by_timestamp_desc :: "('a \<Rightarrow> string) \<Rightarrow> 'a row list \<Rightarrow> 'a row list" where
  "order_by_timestamp_desc ts rows = rev (sort_key (\<lambda>r. ts (obs r)) rows)"

definition sql_limit :: "int \<Rightarrow> 'a list \<Rightarrow> 'a list" where
  "sql_limit n xs = (if n < 0 then xs else take (nat n) xs)"

definition select_recent :: "('a \<Rightarrow> string) \<Rightarrow> 'a row list \<Rightarrow> int \<Rightarrow> int \<Rightarrow> 'a row list" where
  "select_recent ts rows lid n =
     sql_limit n (order_by_timestamp_desc ts (filter (\<lambda>r. location_id r = lid) rows))"

definition fetchone :: "'a list \<Rightarrow> 'a option" where
  "fetchone xs = (case xs of [] \<Rightarrow> None | x # _ \<Rightarrow> Some x)"

text \<open>
  Executing the statement with the id and the limit as parameters: each is bound as a
  64-bit INTEGER first.
\<close>

definition execute_select ::
  "('a \<Rightarrow> string) \<Rightarrow> 'a row list \<Rightarrow> int \<Rightarrow> int \<Rightarrow> py_exn + 'a row list" where
  "execute_select ts rows lid n =
     (if sqlite_int_ok lid \<and> sqlite_int_ok n then Inr (select_recent ts rows lid n)
      else Inl OverflowError)"

text \<open>The statement of the alerts: the limit 1 is part of its text, only the id is bound.\<close>

definition execute_select_latest ::
  "('a \<Rightarrow> string) \<Rightarrow> 'a row list \<Rightarrow> int \<Rightarrow> py_exn + 'a row option" where
  "execute_select_latest ts rows lid =
     (if sqlite_int_ok lid then Inr (fetchone (select_recent ts rows lid 1))
      else Inl OverflowError)"

record historical_data =
  h_air_quality :: "air_obs row list"
  h_water_security :: "water_obs row list"
  h_vegetation :: "veg_obs row list"
  h_data_source :: string

text \<open>
  \<^verbatim>\<open>days\<close> is the query argument parsed as an int, 7 when absent or unparsable. The view
  has no handler: a statement that raises ends it with the framework's 500, the connection
  still open and nothing written.
\<close>

definition get_historical_data ::
  "client \<Rightarrow> db \<Rightarrow> int \<Rightarrow> int option \<Rightarrow> db \<times> (http_error + historical_data)" where
  "get_historical_data self d lid days_arg =
     (let days = (case days_arg of None \<Rightarrow> 7 | Some n \<Rightarrow> n);
          conn = get_db d
      in
     (case execute_select air_timestamp (air_quality (pending conn)) lid days of
        Inl e \<Rightarrow> (committed conn, Inl internal_error)
      | Inr air \<Rightarrow>
     (case execute_select water_timestamp (water_data (pending conn)) lid days of
        Inl e \<Rightarrow> (committed conn, Inl internal_error)
      | Inr water \<Rightarrow>
     (case execute_select veg_timestamp (vegetation (pending conn)) lid days of
        Inl e \<Rightarrow> (committed conn, Inl internal_error)
      | Inr veg \<Rightarrow>
          (close conn,
           Inr \<lparr> h_air_quality = air, h_water_security = water, h_vegetation = veg,
                 h_data_source = (if authenticated self then ''NASA APIs'' else ''Simulation'') \<rparr>)))))"

text \<open>
  An alert. The message is kept as its template and the values formatted into it: the
  AQI and the source tag, the source tag, the groundwater level.
\<close>

datatype alert_message =
    PoorAirQuality int string
  | HighFloodRisk string
  | GroundwaterDepletion real

record alert =
  alert_type :: string
  severity :: string
  message :: alert_message
  alert_timestamp :: string

definition evaluate_alerts :: "air_obs row option \<Rightarrow> water_obs row option \<Rightarrow> alert list" where
  "evaluate_alerts latest_air latest_water =
     (case latest_air of
        None \<Rightarrow> []
      | Some a \<Rightarrow>
          (if air_aqi (obs a) > 100 then
             [\<lparr> alert_type = ''air_quality'',
                severity = (if air_aqi (obs a) < 150 then ''warning'' else ''danger''),
                message = PoorAirQuality (air_aqi (obs a)) (air_source (obs a)),
                alert_timestamp = air_timestamp (obs a) \<rparr>]
           else []))
     @
     (case latest_water of
        None \<Rightarrow> []
      | Some w \<Rightarrow>
          (if water_flood_risk (obs w) = ''High'' then
             [\<lparr> alert_type = ''flood_risk'', severity = ''danger'',
                message = HighFloodRisk (water_source (obs w)),
                alert_timestamp = water_timestamp (obs w) \<rparr>]
           else [])
          @
          (if water_groundwater_level (obs w) < - 15 then
             [\<lparr> alert_type = ''water_stress'', severity = ''warning'',
                message = GroundwaterDepletion (water_groundwater_level (obs w)),
                alert_timestamp = water_timestamp (obs w) \<rparr>]
           else []))"

text \<open>The endpoint; like the history view it has no handler.\<close>

definition get_alerts :: "db \<Rightarrow> int \<Rightarrow> db \<times> (http_error + alert list)" where
  "get_alerts d lid =
     (let conn = get_db d in
     (case execute_select_latest air_timestamp (air_quality (pending conn)) lid of
        Inl e \<Rightarrow> (committed conn, Inl internal_error)
      | Inr latest_air \<Rightarrow>
     (case execute_select_latest water_timestamp (water_data (pending conn)) lid of
        Inl e \<Rightarrow> (committed conn, Inl internal_error)
      | Inr latest_water \<Rightarrow> (close conn, Inr (evaluate_alerts latest_air latest_water)))))"

text \<open>The pairs of type and severity of an alert sequence.\<close>

definition kinds :: "alert list \<Rightarrow> (string \<times> string) list" where
  "kinds alerts = map (\<lambda>a. (alert_type a, severity a)) alerts"

section \<open>The states the service reaches\<close>

text \<open>
  From a fresh database: \<^verbatim>\<open>init_db\<close>, then any sequence of endpoint calls. The random
  draws of a dashboard query obey the contract of the \<^verbatim>\<open>random\<close> module.
\<close>

definition env_ok :: "query_env \<Rightarrow> bool" where
  "env_ok env = (air_draws_ok (q_air env) \<and> water_draws_ok (q_water env) \<and> veg_draws_ok (q_veg env))"

inductive reachable :: "db \<Rightarrow> bool" where
  fresh: "reachable (init_db empty_db)"
| located: "reachable d \<Longrightarrow> reachable (fst (add_location d data fault))"
| queried: "reachable d \<Longrightarrow> env_ok env \<Longrightarrow> reachable (fst (get_dashboard_data self env d lid))"
| history: "reachable d \<Longrightarrow> reachable (fst (get_historical_data self d lid days))"
| alerted: "reachable d \<Longrightarrow> reachable (fst (get_alerts d lid))"

definition db_in_range :: "db \<Rightarrow> bool" where
  "db_in_range d =
     (list_all (\<lambda>r. air_in_range (obs r)) (air_quality d) \<and>
      list_all (\<lambda>r. water_in_range (obs r)) (water_data d) \<and>
      list_all (\<lambda>r. veg_in_range (obs r)) (vegetation d))"

section \<open>The durable effect of a dashboard query, and example inputs\<close>

text \<open>The database with the three observation rows of one query, and with its audit row.\<close>

definition with_observations :: "db \<Rightarrow> int \<Rightarrow> air_obs \<Rightarrow> water_obs \<Rightarrow> veg_obs \<Rightarrow> db" where
  "with_observations d lid air water veg =
     d\<lparr> air_quality := air_quality d @
          [\<lparr> row_id = next_rowid (map row_id (air_quality d)), location_id = lid, obs = air \<rparr>],
        water_data := water_data d @
          [\<lparr> row_id = next_rowid (map row_id (water_data d)), location_id = lid, obs = water \<rparr>],
        vegetation := vegetation d @
          [\<lparr> row_id = next_rowid (map row_id (vegetation d)), location_id = lid, obs = veg \<rparr>] \<rparr>"

definition with_log :: "db \<Rightarrow> location \<Rightarrow> db" where
  "with_log d loc =
     d\<lparr> api_logs := api_logs d @
          [\<lparr> log_id = next_rowid (map log_id (api_logs d)), endpoint = ''dashboard'',
             log_latitude = loc_latitude loc, log_longitude = loc_longitude loc,
             response_status = ''success'' \<rparr>] \<rparr>"

text \<open>A client without credentials, a vendor that cannot be reached, one set of draws.\<close>

definition simulated_client :: client where
  "simulated_client = NASAAPIClient_init [] [] [] EarthaccessMissing"

definition offline_vendor :: vendor where
  "offline_vendor =
     \<lparr> session_get = (\<lambda>url params. Inl ConnectionError), earthaccess_installed = False,
       search_data = (\<lambda>short_name box temporal. Inl ConnectionError),
       download = (\<lambda>n. Inl ConnectionError), today = ''2025-10-03'' \<rparr>"

definition sample_air_draws :: air_draws where
  "sample_air_draws =
     \<lparr> d_now_air = ''2025-10-03T15:37:01'', d_no2 = 0, d_o3 = 1 / 2, d_pm25 = 1 / 4,
       d_so2 = 3 / 4, d_aqi = 100 \<rparr>"

definition sample_water_draws :: water_draws where
  "sample_water_draws =
     \<lparr> d_now_water = ''2025-10-03T15:37:02'', d_groundwater = 0, d_precipitation = 1 / 2,
       d_flood = 2 \<rparr>"

definition sample_veg_draws :: veg_draws where
  "sample_veg_draws =
     \<lparr> d_now_veg = ''2025-10-03T15:37:03'', d_ndvi = 0, d_evi = 1 / 2, d_green = 1 / 4,
       d_temperature = 3 / 4 \<rparr>"

definition sample_env :: "(db_step \<Rightarrow> bool) \<Rightarrow> query_env" where
  "sample_env faults =
     \<lparr> q_vendor_air = offline_vendor, q_vendor_water = offline_vendor,
       q_vendor_veg = offline_vendor, q_air = sample_air_draws, q_water = sample_water_draws,
       q_veg = sample_veg_draws, q_faults = faults, q_now = ''2025-10-03T15:37:04'' \<rparr>"




text \<open>The latest observations \<open>aqi = 160\<close>, \<open>flood_risk = High\<close>, \<open>groundwater_level = -16\<close>.\<close>

definition alert_air_row :: "air_obs row" where
  "alert_air_row =
     \<lparr> row_id = 1, location_id = 1,
       obs = \<lparr> air_timestamp = ''2025-10-03T15:37:01'', air_no2 = 30, air_o3 = 40,
               air_pm25 = 20, air_so2 = 5, air_aqi = 160, air_source = ''SIMULATION'' \<rparr> \<rparr>"

definition alert_water_row :: "water_obs row" where
  "alert_water_row =
     \<lparr> row_id = 1, location_id = 1,
       obs = \<lparr> water_timestamp = ''2025-10-03T15:37:02'', water_groundwater_level = - 16,
               water_precipitation = 3, water_flood_risk = ''High'',
               water_source = ''SIMULATION'' \<rparr> \<rparr>"

definition alert_db :: db where
  "alert_db =
     (init_db empty_db)\<lparr>air_quality := [alert_air_row], water_data := [alert_water_row]\<rparr>"

text \<open>Values no fetcher produces: \<open>aqi = 500\<close> and \<open>groundwater_level = 100\<close>.\<close>

definition adversarial_air :: air_obs where
  "adversarial_air = (simulate_air_quality_data sample_air_draws)\<lparr>air_aqi := 500\<rparr>"

definition adversarial_water :: water_obs where
  "adversarial_water = (simulate_water_data sample_water_draws)\<lparr>water_groundwater_level := 100\<rparr>"

text \<open>A store without faults, and one that rejects the INSERT into \<^verbatim>\<open>api_logs\<close>.\<close>

definition no_fault :: "db_step \<Rightarrow> bool" where
  "no_fault step = False"

definition log_fault :: "db_step \<Rightarrow> bool" where
  "log_fault step = (step = InsertApiLog)"

text \<open>A store that rejects the third observation INSERT.\<close>

definition vegetation_fault :: "db_step \<Rightarrow> bool" where
  "vegetation_fault step = (step = InsertVegetation)"

text \<open>
  A client with credentials and an API key where \<^verbatim>\<open>earthaccess\<close> is not installed, and a
  vendor that answers every request with status 503 and finds no granule.
\<close>

definition live_client :: client where
  "live_client = NASAAPIClient_init ''alice'' ''secret'' ''DEMO_KEY'' EarthaccessMissing"

definition failing_vendor :: vendor where
  "failing_vendor =
     \<lparr> session_get = (\<lambda>url params. Inr \<lparr> status_code = 503, json_ok = False \<rparr>),
       earthaccess_installed = True,
       search_data = (\<lambda>short_name box temporal. Inr 0),
       download = (\<lambda>n. Inl ConnectionError), today = ''2025-10-03'' \<rparr>"

section \<open>Notions used in the statements\<close>




text \<open>A vendor request succeeds: status 200 and a body that parses.\<close>

definition responds_ok :: "vendor \<Rightarrow> string \<Rightarrow> (string \<times> val) list \<Rightarrow> bool" where
  "responds_ok v url params =
     (case session_get v url params of
        Inl e \<Rightarrow> False
      | Inr response \<Rightarrow> status_code response = 200 \<and> json_ok response)"

text \<open>The failure response of the dashboard, and its success response.\<close>

definition failed :: "http_error + dashboard_data" where
  "failed = Inl (ServerError ''Failed to retrieve NASA data'')"

definition response_of ::
  "client \<Rightarrow> query_env \<Rightarrow> location \<Rightarrow> air_obs \<Rightarrow> water_obs \<Rightarrow> veg_obs \<Rightarrow> dashboard_data" where
  "response_of self env loc air water veg =
     \<lparr> dd_location = loc, dd_air_quality = Some air,
       dd_water_security = Some water, dd_vegetation = Some veg,
       dd_wellbeing_index = min 100 (max 0 (wellbeing_index (Some air) (Some water) (Some veg))),
       dd_nasa_api_status = authenticated self,
       dd_last_updated = q_now env \<rparr>"

section \<open>Auxiliary facts\<close>

lemma uniform_bounds: "unit_draw u \<Longrightarrow> a \<le> b \<Longrightarrow> a \<le> uniform a b u \<and> uniform a b u \<le> b"
proof -
  assume u: "unit_draw u" and ab: "a \<le> b"
  have "0 \<le> (b - a) * u" using u ab by (simp add: unit_draw_def)
  moreover have "(b - a) * u \<le> (b - a) * 1"
    using u ab by (intro mult_left_mono) (simp_all add: unit_draw_def)
  ultimately show ?thesis by (simp add: uniform_def)
qed

lemma randint_bounds: "k < 101 \<Longrightarrow> 50 \<le> randint 50 150 k \<and> randint 50 150 k \<le> 150"
  by (simp add: randint_def)

lemma choice_flood: "k < 3 \<Longrightarrow> choice [''Low'', ''Medium'', ''High''] k \<in> {''Low'', ''Medium'', ''High''}"
proof -
  assume "k < 3"
  then consider "k = 0" | "k = 1" | "k = 2" by linarith
  then show ?thesis by cases (simp_all add: choice_def)
qed

lemma simulate_air_in_range: "air_draws_ok r \<Longrightarrow> air_in_range (simulate_air_quality_data r)"
  using uniform_bounds [of "d_no2 r" 10 50] uniform_bounds [of "d_o3 r" 20 80]
    uniform_bounds [of "d_pm25 r" 5 35] uniform_bounds [of "d_so2 r" 1 15]
    randint_bounds [of "d_aqi r"]
  by (simp add: air_draws_ok_def air_in_range_def simulate_air_quality_data_def)

lemma process_air_in_range: "air_draws_ok r \<Longrightarrow> air_in_range (process_nasa_air_data r)"
  using uniform_bounds [of "d_no2 r" 10 50] uniform_bounds [of "d_o3 r" 20 80]
    uniform_bounds [of "d_pm25 r" 5 35] uniform_bounds [of "d_so2 r" 1 15]
    randint_bounds [of "d_aqi r"]
  by (simp add: air_draws_ok_def air_in_range_def process_nasa_air_data_def)

lemma simulate_water_in_range: "water_draws_ok r \<Longrightarrow> water_in_range (simulate_water_data r)"
  using uniform_bounds [of "d_groundwater r" "- 20" 20] uniform_bounds [of "d_precipitation r" 0 15]
    choice_flood [of "d_flood r"]
  by (simp add: water_draws_ok_def water_in_range_def simulate_water_data_def)

lemma process_water_in_range: "water_draws_ok r \<Longrightarrow> water_in_range (process_nasa_water_data r)"
  using uniform_bounds [of "d_groundwater r" "- 20" 20] uniform_bounds [of "d_precipitation r" 0 15]
    choice_flood [of "d_flood r"]
  by (simp add: water_draws_ok_def water_in_range_def process_nasa_water_data_def)

lemma simulate_veg_in_range: "veg_draws_ok r \<Longrightarrow> veg_in_range (simulate_vegetation_data r)"
  using uniform_bounds [of "d_ndvi r" "0.2" "0.8"] uniform_bounds [of "d_evi r" "0.1" "0.6"]
    uniform_bounds [of "d_green r" 15 65] uniform_bounds [of "d_temperature r" 20 35]
  by (simp add: veg_draws_ok_def veg_in_range_def simulate_vegetation_data_def)

lemma process_veg_in_range: "veg_draws_ok r \<Longrightarrow> veg_in_range (process_nasa_vegetation_data r)"
  using uniform_bounds [of "d_ndvi r" "0.2" "0.8"] uniform_bounds [of "d_evi r" "0.1" "0.6"]
    uniform_bounds [of "d_green r" 15 65] uniform_bounds [of "d_temperature r" 20 35]
  by (simp add: veg_draws_ok_def veg_in_range_def process_nasa_vegetation_data_def)

lemma clamp_min_max: "min 100 (max 0 x) = clamp x 0 100"
  by (simp add: clamp_def min_def max_def)

lemma reducer_refines_spec:
  "min 100 (max 0 (wellbeing_index a w g)) = spec_index a w g"
  unfolding clamp_min_max
  by (simp add: wellbeing_index_def spec_index_def Let_def of_int_max split: option.splits)

lemma spec_index_bounds: "0 \<le> spec_index a w g \<and> spec_index a w g \<le> 100"
  by (simp add: spec_index_def clamp_def)

lemma get_air_total: "\<exists>x. get_air_quality_data self v r la lo dt = Inr x"
  by (simp add: get_air_quality_data_def split: sum.splits)

lemma get_water_total: "\<exists>x. get_water_security_data self v r la lo dt = Inr x"
  by (simp add: get_water_security_data_def split: sum.splits)

lemma get_veg_total: "\<exists>x. get_vegetation_data self v r la lo dt = Inr x"
  by (simp add: get_vegetation_data_def split: sum.splits)

lemma dashboard_try_unfold:
  assumes "get_air_quality_data self (q_vendor_air env) (q_air env) (loc_latitude loc) (loc_longitude loc) None = Inr air"
    and "get_water_security_data self (q_vendor_water env) (q_water env) (loc_latitude loc) (loc_longitude loc) None = Inr water"
    and "get_vegetation_data self (q_vendor_veg env) (q_veg env) (loc_latitude loc) (loc_longitude loc) None = Inr veg"
  shows "dashboard_try self env conn lid loc =
    (let c1 = insert_air lid air conn; c2 = insert_water lid water c1;
         c3 = insert_vegetation lid veg c2; c4 = commit c3;
         c5 = insert_api_log (loc_latitude loc) (loc_longitude loc) c4; c6 = commit c5
     in if q_faults env InsertAir then (conn, Inl DatabaseError)
        else if q_faults env InsertWater then (c1, Inl DatabaseError)
        else if q_faults env InsertVegetation then (c2, Inl DatabaseError)
        else if q_faults env CommitObservations then (c3, Inl DatabaseError)
        else if q_faults env InsertApiLog then (c4, Inl DatabaseError)
        else if q_faults env CommitLog then (c5, Inl DatabaseError)
        else (c6, Inr \<lparr> dd_location = loc, dd_air_quality = Some air,
                     dd_water_security = Some water, dd_vegetation = Some veg,
                     dd_wellbeing_index = min 100 (max 0 (wellbeing_index (Some air) (Some water) (Some veg))),
                     dd_nasa_api_status = authenticated self,
                     dd_last_updated = q_now env \<rparr>))"
  by (simp add: dashboard_try_def store_def execute_def Let_def assms)

lemma dashboard_try_index:
  "dashboard_try self env conn lid loc = (c, Inr data) \<Longrightarrow>
     dd_wellbeing_index data =
       min 100 (max 0 (wellbeing_index (dd_air_quality data) (dd_water_security data) (dd_vegetation data)))"
proof -
  assume r: "dashboard_try self env conn lid loc = (c, Inr data)"
  obtain air where a: "get_air_quality_data self (q_vendor_air env) (q_air env) (loc_latitude loc) (loc_longitude loc) None = Inr air"
    using get_air_total by blast
  obtain water where w: "get_water_security_data self (q_vendor_water env) (q_water env) (loc_latitude loc) (loc_longitude loc) None = Inr water"
    using get_water_total by blast
  obtain veg where g: "get_vegetation_data self (q_vendor_veg env) (q_veg env) (loc_latitude loc) (loc_longitude loc) None = Inr veg"
    using get_veg_total by blast
  from r show ?thesis
    unfolding dashboard_try_unfold [OF a w g] Let_def
    by (auto split: if_splits)
qed

lemma dashboard_success_index:
  "get_dashboard_data self env d lid = (d', Inr data) \<Longrightarrow>
     dd_wellbeing_index data =
       min 100 (max 0 (wellbeing_index (dd_air_quality data) (dd_water_security data) (dd_vegetation data)))"
  by (auto simp: get_dashboard_data_def Let_def dashboard_try_index split: option.splits prod.splits sum.splits)

lemma authenticated_init:
  "authenticated (NASAAPIClient_init u p k ea) =
     (u \<noteq> [] \<and> p \<noteq> [] \<and> (ea = EarthaccessMissing \<or> ea = LoginReturns \<or> ea = LoginRaises ImportError))"
  by (cases ea) (auto simp: NASAAPIClient_init_def setup_authentication_def Let_def)

lemma kinds_append: "kinds (xs @ ys) = kinds xs @ kinds ys"
  by (simp add: kinds_def)

lemma air_method2_no_obs: "air_method2 v la lo date \<noteq> Inr (Some x)"
  by (auto simp: air_method2_def import_guard_def split: sum.splits if_splits)

lemma search_method2_no_obs: "search_method2 v n h la lo date \<noteq> Inr (Some x)"
  by (auto simp: search_method2_def import_guard_def split: sum.splits if_splits)

lemma get_air_result:
  "get_air_quality_data self v r la lo dt = Inr (simulate_air_quality_data r) \<or>
   get_air_quality_data self v r la lo dt = Inr (process_nasa_air_data r)"
  by (auto simp: air_method2_no_obs get_air_quality_data_def air_try_def method1_def fetch_nasa_opendata_air_quality_def
      split: sum.splits option.splits if_splits)

lemma get_water_result:
  "get_water_security_data self v r la lo dt = Inr (simulate_water_data r) \<or>
   get_water_security_data self v r la lo dt = Inr (process_nasa_water_data r)"
  by (auto simp: search_method2_no_obs get_water_security_data_def water_try_def method1_def fetch_nasa_precipitation_data_def
      split: sum.splits option.splits if_splits)

lemma get_veg_result:
  "get_vegetation_data self v r la lo dt = Inr (simulate_vegetation_data r) \<or>
   get_vegetation_data self v r la lo dt = Inr (process_nasa_vegetation_data r)"
  by (auto simp: search_method2_no_obs get_vegetation_data_def vegetation_try_def method1_def fetch_nasa_landsat_data_def
      split: sum.splits option.splits if_splits)

lemma air_exhausted:
  "\<not> (api_key self \<noteq> [] \<and> responds_ok v assets_url (assets_params self la lo (default_date v dt))) \<Longrightarrow>
   \<not> responds_ok v opendata_url [] \<Longrightarrow>
   get_air_quality_data self v r la lo dt = Inr (simulate_air_quality_data r)"
  by (auto simp: air_method2_no_obs get_air_quality_data_def air_try_def method1_def fetch_nasa_opendata_air_quality_def
      responds_ok_def split: sum.splits option.splits if_splits)

lemma water_exhausted:
  "\<not> (api_key self \<noteq> [] \<and> responds_ok v imagery_url (imagery_params self la lo (default_date v dt))) \<Longrightarrow>
   get_water_security_data self v r la lo dt = Inr (simulate_water_data r)"
  by (auto simp: search_method2_no_obs get_water_security_data_def water_try_def method1_def fetch_nasa_precipitation_data_def
      responds_ok_def split: sum.splits option.splits if_splits)

lemma veg_exhausted:
  "\<not> (api_key self \<noteq> [] \<and> responds_ok v assets_url (assets_params self la lo (default_date v dt))) \<Longrightarrow>
   get_vegetation_data self v r la lo dt = Inr (simulate_vegetation_data r)"
  by (auto simp: search_method2_no_obs get_vegetation_data_def vegetation_try_def method1_def fetch_nasa_landsat_data_def
      responds_ok_def split: sum.splits option.splits if_splits)

lemma air_absorbed:
  "air_try self v r la lo (default_date v dt) = Inl e \<Longrightarrow>
   get_air_quality_data self v r la lo dt = Inr (simulate_air_quality_data r)"
  by (simp add: get_air_quality_data_def)

lemma water_absorbed:
  "water_try self v r la lo (default_date v dt) = Inl e \<Longrightarrow>
   get_water_security_data self v r la lo dt = Inr (simulate_water_data r)"
  by (simp add: get_water_security_data_def)

lemma veg_absorbed:
  "vegetation_try self v r la lo (default_date v dt) = Inl e \<Longrightarrow>
   get_vegetation_data self v r la lo dt = Inr (simulate_vegetation_data r)"
  by (simp add: get_vegetation_data_def)

lemma get_air_in_range:
  "air_draws_ok r \<Longrightarrow> get_air_quality_data self v r la lo dt = Inr x \<Longrightarrow> air_in_range x"
  using get_air_result [of self v r la lo dt]
  by (auto simp: simulate_air_in_range process_air_in_range)

lemma get_water_in_range:
  "water_draws_ok r \<Longrightarrow> get_water_security_data self v r la lo dt = Inr x \<Longrightarrow> water_in_range x"
  using get_water_result [of self v r la lo dt]
  by (auto simp: simulate_water_in_range process_water_in_range)

lemma get_veg_in_range:
  "veg_draws_ok r \<Longrightarrow> get_vegetation_data self v r la lo dt = Inr x \<Longrightarrow> veg_in_range x"
  using get_veg_result [of self v r la lo dt]
  by (auto simp: simulate_veg_in_range process_veg_in_range)

lemma dashboard_result:
  assumes "select_location d lid = Inr (Some loc)"
    and "get_air_quality_data self (q_vendor_air env) (q_air env) (loc_latitude loc) (loc_longitude loc) None = Inr air"
    and "get_water_security_data self (q_vendor_water env) (q_water env) (loc_latitude loc) (loc_longitude loc) None = Inr water"
    and "get_vegetation_data self (q_vendor_veg env) (q_veg env) (loc_latitude loc) (loc_longitude loc) None = Inr veg"
  shows "get_dashboard_data self env d lid =
    (if q_faults env InsertAir \<or> q_faults env InsertWater \<or> q_faults env InsertVegetation \<or>
        q_faults env CommitObservations
     then (d, failed)
     else if q_faults env InsertApiLog \<or> q_faults env CommitLog
     then (with_observations d lid air water veg, failed)
     else (with_log (with_observations d lid air water veg) loc, Inr (response_of self env loc air water veg)))"
  using assms(1)
  by (simp add: get_dashboard_data_def get_db_def dashboard_try_unfold [OF assms(2-4)] Let_def
      insert_air_def insert_water_def insert_vegetation_def insert_api_log_def commit_def close_def
      with_observations_def with_log_def failed_def response_of_def)

lemma dashboard_not_found:
  "select_location d lid = Inr None \<Longrightarrow>
   get_dashboard_data self env d lid = (d, Inl (NotFound ''Location not found''))"
  by (simp add: get_dashboard_data_def get_db_def)

lemma dashboard_overflow:
  "select_location d lid = Inl e \<Longrightarrow>
   get_dashboard_data self env d lid = (d, Inl internal_error)"
  by (simp add: get_dashboard_data_def get_db_def)

lemma add_location_tables:
  "air_quality (fst (add_location d data fault)) = air_quality d \<and>
   water_data (fst (add_location d data fault)) = water_data d \<and>
   vegetation (fst (add_location d data fault)) = vegetation d \<and>
   api_logs (fst (add_location d data fault)) = api_logs d"
  by (auto simp: add_location_def add_location_checked_def execute_insert_location_def Let_def
      insert_location_def commit_def close_def get_db_def split: option.splits sum.splits if_splits)



lemma dict_all_in:
  "all_in (BodyDict kvs) [''name'', ''latitude'', ''longitude''] =
     Inr (map_of kvs ''name'' \<noteq> None \<and> map_of kvs ''latitude'' \<noteq> None \<and>
          map_of kvs ''longitude'' \<noteq> None)"
  by (simp add: has_key_def)









lemma add_location_scalar:
  "add_location d (BodyBool True) fault = (d, Inl internal_error)"
  "i \<noteq> 0 \<Longrightarrow> add_location d (BodyInt i) fault = (d, Inl internal_error)"
  "x \<noteq> 0 \<Longrightarrow> add_location d (BodyFloat x) fault = (d, Inl internal_error)"
  by (simp_all add: add_location_def falsy_def has_key_def)




lemma sum_option_cases:
  obtains (raised) e where "r = Inl e" | (absent) "r = Inr None" | (Some) x where "r = Inr (Some x)"
  by (cases r) (auto elim: option.exhaust)

lemma dashboard_cases:
  obtains (unchanged) "fst (get_dashboard_data self env d lid) = d"
      "\<And>data. snd (get_dashboard_data self env d lid) \<noteq> Inr data"
    | (observed) loc air water veg where
      "select_location d lid = Inr (Some loc)"
      "get_air_quality_data self (q_vendor_air env) (q_air env) (loc_latitude loc) (loc_longitude loc) None = Inr air"
      "get_water_security_data self (q_vendor_water env) (q_water env) (loc_latitude loc) (loc_longitude loc) None = Inr water"
      "get_vegetation_data self (q_vendor_veg env) (q_veg env) (loc_latitude loc) (loc_longitude loc) None = Inr veg"
      "get_dashboard_data self env d lid = (with_observations d lid air water veg, failed)"
    | (logged) loc air water veg where
      "select_location d lid = Inr (Some loc)"
      "get_air_quality_data self (q_vendor_air env) (q_air env) (loc_latitude loc) (loc_longitude loc) None = Inr air"
      "get_water_security_data self (q_vendor_water env) (q_water env) (loc_latitude loc) (loc_longitude loc) None = Inr water"
      "get_vegetation_data self (q_vendor_veg env) (q_veg env) (loc_latitude loc) (loc_longitude loc) None = Inr veg"
      "get_dashboard_data self env d lid =
         (with_log (with_observations d lid air water veg) loc, Inr (response_of self env loc air water veg))"
proof (cases "select_location d lid" rule: sum_option_cases)
  case (raised e)
  then show ?thesis using unchanged by (simp add: dashboard_overflow)
next
  case absent
  then show ?thesis using unchanged by (simp add: dashboard_not_found)
next
  case (Some loc)
  obtain air where a: "get_air_quality_data self (q_vendor_air env) (q_air env) (loc_latitude loc) (loc_longitude loc) None = Inr air"
    using get_air_total by blast
  obtain water where w: "get_water_security_data self (q_vendor_water env) (q_water env) (loc_latitude loc) (loc_longitude loc) None = Inr water"
    using get_water_total by blast
  obtain veg where g: "get_vegetation_data self (q_vendor_veg env) (q_veg env) (loc_latitude loc) (loc_longitude loc) None = Inr veg"
    using get_veg_total by blast
  note r = dashboard_result [OF Some a w g]
  consider "q_faults env InsertAir \<or> q_faults env InsertWater \<or> q_faults env InsertVegetation \<or>
        q_faults env CommitObservations"
    | "\<not> (q_faults env InsertAir \<or> q_faults env InsertWater \<or> q_faults env InsertVegetation \<or>
        q_faults env CommitObservations)" "q_faults env InsertApiLog \<or> q_faults env CommitLog"
    | "\<not> (q_faults env InsertAir \<or> q_faults env InsertWater \<or> q_faults env InsertVegetation \<or>
        q_faults env CommitObservations)" "\<not> (q_faults env InsertApiLog \<or> q_faults env CommitLog)"
    by blast
  then show ?thesis
  proof cases
    case 1
    then have "get_dashboard_data self env d lid = (d, failed)" using r by simp
    then show ?thesis using unchanged by (simp add: failed_def)
  next
    case 2
    then have "get_dashboard_data self env d lid = (with_observations d lid air water veg, failed)"
      using r by simp
    then show ?thesis using observed [OF Some a w g] by simp
  next
    case 3
    then have "get_dashboard_data self env d lid =
         (with_log (with_observations d lid air water veg) loc, Inr (response_of self env loc air water veg))"
      using r by simp
    then show ?thesis using logged [OF Some a w g] by simp
  qed
qed

lemma with_observations_ranges:
  "db_in_range d \<Longrightarrow> air_in_range air \<Longrightarrow> water_in_range water \<Longrightarrow> veg_in_range veg \<Longrightarrow>
   db_in_range (with_observations d lid air water veg)"
  by (simp add: db_in_range_def with_observations_def)

lemma with_log_ranges: "db_in_range d \<Longrightarrow> db_in_range (with_log d loc)"
  by (simp add: db_in_range_def with_log_def)

lemma dashboard_in_range:
  assumes "db_in_range d" "env_ok env"
  shows "db_in_range (fst (get_dashboard_data self env d lid))"
proof (cases rule: dashboard_cases [of self env d lid])
  case unchanged
  then show ?thesis using assms by simp
next
  case (observed loc air water veg)
  have "air_in_range air" "water_in_range water" "veg_in_range veg"
    using assms(2) get_air_in_range [OF _ observed(2)] get_water_in_range [OF _ observed(3)]
      get_veg_in_range [OF _ observed(4)]
    by (simp_all add: env_ok_def)
  then show ?thesis
    using assms(1) observed(5) by (simp add: with_observations_ranges)
next
  case (logged loc air water veg)
  have "air_in_range air" "water_in_range water" "veg_in_range veg"
    using assms(2) get_air_in_range [OF _ logged(2)] get_water_in_range [OF _ logged(3)]
      get_veg_in_range [OF _ logged(4)]
    by (simp_all add: env_ok_def)
  then show ?thesis
    using assms(1) logged(5) by (simp add: with_observations_ranges with_log_ranges)
qed

lemma history_no_write: "fst (get_historical_data self d lid days) = d"
  by (simp add: get_historical_data_def Let_def close_def get_db_def split: sum.splits)

lemma alerts_no_write: "fst (get_alerts d lid) = d"
  by (simp add: get_alerts_def Let_def close_def get_db_def split: sum.splits)

lemma reachable_in_range: "reachable d \<Longrightarrow> db_in_range d"
proof (induction rule: reachable.induct)
  case fresh
  then show ?case by (simp add: db_in_range_def init_db_def empty_db_def)
next
  case (located d data fault)
  then show ?case by (simp add: db_in_range_def add_location_tables)
next
  case (queried d env self lid)
  then show ?case by (simp add: dashboard_in_range)
next
  case (history d self lid days)
  then show ?case by (simp add: history_no_write)
next
  case (alerted d lid)
  then show ?case by (simp add: alerts_no_write)
qed










lemma alerts_result:
  "sqlite_int_ok lid \<Longrightarrow>
   get_alerts d lid =
     (d, Inr (evaluate_alerts (fetchone (select_recent air_timestamp (air_quality d) lid 1))
           (fetchone (select_recent water_timestamp (water_data d) lid 1))))"
  by (simp add: get_alerts_def execute_select_latest_def Let_def get_db_def close_def)

lemma alerts_overflow:
  "\<not> sqlite_int_ok lid \<Longrightarrow> get_alerts d lid = (d, Inl internal_error)"
  by (simp add: get_alerts_def execute_select_latest_def Let_def get_db_def)




subsection \<open>The example inputs\<close>

lemma simulated_client_off: "authenticated simulated_client = False"
  by (simp add: simulated_client_def NASAAPIClient_init_def)

lemma live_client_on: "authenticated live_client \<and> api_key live_client = ''DEMO_KEY''"
  by (simp add: live_client_def NASAAPIClient_init_def setup_authentication_def)

lemma find_new_delhi: "select_location (init_db empty_db) 1 = Inr (Some new_delhi)"
  by (simp add: select_location_def sqlite_int_ok_def init_db_def empty_db_def sample_locations_def
      new_delhi_def)

lemma simulated_fetch:
  "get_air_quality_data simulated_client v ra la lo dt = Inr (simulate_air_quality_data ra)"
  "get_water_security_data simulated_client v rw la lo dt = Inr (simulate_water_data rw)"
  "get_vegetation_data simulated_client v rv la lo dt = Inr (simulate_vegetation_data rv)"
  by (simp_all add: get_air_quality_data_def get_water_security_data_def get_vegetation_data_def
      simulated_client_off)

lemma sample_dashboard:
  "get_dashboard_data simulated_client (sample_env faults) (init_db empty_db) 1 =
    (if faults InsertAir \<or> faults InsertWater \<or> faults InsertVegetation \<or> faults CommitObservations
     then (init_db empty_db, failed)
     else if faults InsertApiLog \<or> faults CommitLog
     then (with_observations (init_db empty_db) 1 (simulate_air_quality_data sample_air_draws)
             (simulate_water_data sample_water_draws) (simulate_vegetation_data sample_veg_draws), failed)
     else (with_log (with_observations (init_db empty_db) 1 (simulate_air_quality_data sample_air_draws)
             (simulate_water_data sample_water_draws) (simulate_vegetation_data sample_veg_draws)) new_delhi,
           Inr (response_of simulated_client (sample_env faults) new_delhi
             (simulate_air_quality_data sample_air_draws) (simulate_water_data sample_water_draws)
             (simulate_vegetation_data sample_veg_draws))))"
proof -
  have "q_faults (sample_env faults) = faults" "q_air (sample_env faults) = sample_air_draws"
    "q_water (sample_env faults) = sample_water_draws" "q_veg (sample_env faults) = sample_veg_draws"
    by (simp_all add: sample_env_def)
  then show ?thesis
    using dashboard_result [where env = "sample_env faults" and self = simulated_client,
        OF find_new_delhi simulated_fetch(1) simulated_fetch(2) simulated_fetch(3)]
    by simp
qed

lemma sample_draws_ok:
  "air_draws_ok sample_air_draws" "water_draws_ok sample_water_draws" "veg_draws_ok sample_veg_draws"
  by (simp_all add: air_draws_ok_def water_draws_ok_def veg_draws_ok_def unit_draw_def
      sample_air_draws_def sample_water_draws_def sample_veg_draws_def)

section \<open>The claims\<close>

text \<open>
  Claim C1. The clamped wellbeing index that the source computes equals the specified
  \<open>clamp(air_score * 0.4 + water_score * 0.3 + green_score * 0.3, 0, 100)\<close>, with
  \<open>air_score = max(0, 100 - aqi)\<close>, \<open>water_score = 50 + groundwater_level * 2\<close>,
  \<open>green_score = green_coverage\<close> and 50 for an absent observation; it lies in
  \<open>[0, 100]\<close> for every input. Every successful dashboard query returns this value for
  the observations it returns.
\<close>

theorem wellbeing_index_clamped:
  "min 100 (max 0 (wellbeing_index a w g)) = spec_index a w g \<and>
   0 \<le> min 100 (max 0 (wellbeing_index a w g)) \<and> min 100 (max 0 (wellbeing_index a w g)) \<le> 100 \<and>
   (get_dashboard_data self env d lid = (d', Inr data) \<longrightarrow>
      dd_wellbeing_index data = spec_index (dd_air_quality data) (dd_water_security data) (dd_vegetation data) \<and>
      0 \<le> dd_wellbeing_index data \<and> dd_wellbeing_index data \<le> 100)"
proof -
  have "dd_wellbeing_index data = spec_index (dd_air_quality data) (dd_water_security data) (dd_vegetation data)"
    if "get_dashboard_data self env d lid = (d', Inr data)"
    using dashboard_success_index [OF that] by (simp add: reducer_refines_spec)
  then show ?thesis
    using spec_index_bounds by (simp add: reducer_refines_spec)
qed

text \<open>
  Claim C1, witness: a successful query on the fresh database returns the index 11.25, and
  the inputs \<open>aqi = 500\<close>, \<open>groundwater_level = 100\<close> without a vegetation observation give 90.
\<close>

theorem wellbeing_index_clamped_witness:
  "get_dashboard_data simulated_client (sample_env no_fault) (init_db empty_db) 1 =
     (with_log (with_observations (init_db empty_db) 1 (simulate_air_quality_data sample_air_draws)
        (simulate_water_data sample_water_draws) (simulate_vegetation_data sample_veg_draws)) new_delhi,
      Inr (response_of simulated_client (sample_env no_fault) new_delhi
        (simulate_air_quality_data sample_air_draws) (simulate_water_data sample_water_draws)
        (simulate_vegetation_data sample_veg_draws))) \<and>
   dd_wellbeing_index (response_of simulated_client (sample_env no_fault) new_delhi
        (simulate_air_quality_data sample_air_draws) (simulate_water_data sample_water_draws)
        (simulate_vegetation_data sample_veg_draws)) = 45 / 4 \<and>
   spec_index (Some (simulate_air_quality_data sample_air_draws)) (Some (simulate_water_data sample_water_draws))
        (Some (simulate_vegetation_data sample_veg_draws)) = 45 / 4 \<and>
   air_aqi adversarial_air = 500 \<and> water_groundwater_level adversarial_water = 100 \<and>
   min 100 (max 0 (wellbeing_index (Some adversarial_air) (Some adversarial_water) None)) = 90 \<and>
   spec_index (Some adversarial_air) (Some adversarial_water) None = 90"
proof -
  let ?A = "simulate_air_quality_data sample_air_draws"
  let ?W = "simulate_water_data sample_water_draws"
  let ?G = "simulate_vegetation_data sample_veg_draws"
  let ?R = "response_of simulated_client (sample_env no_fault) new_delhi ?A ?W ?G"
  let ?D = "with_log (with_observations (init_db empty_db) 1 ?A ?W ?G) new_delhi"
  have run: "get_dashboard_data simulated_client (sample_env no_fault) (init_db empty_db) 1 = (?D, Inr ?R)"
    by (simp add: sample_dashboard no_fault_def)
  have val: "dd_wellbeing_index ?R = 45 / 4"
    by (simp add: response_of_def wellbeing_index_def simulate_air_quality_data_def
        simulate_water_data_def simulate_vegetation_data_def sample_air_draws_def
        sample_water_draws_def sample_veg_draws_def uniform_def randint_def)
  have fields: "dd_air_quality ?R = Some ?A" "dd_water_security ?R = Some ?W" "dd_vegetation ?R = Some ?G"
    by (simp_all add: response_of_def)
  have adv: "min 100 (max 0 (wellbeing_index (Some adversarial_air) (Some adversarial_water) None)) = 90"
    by (simp add: wellbeing_index_def adversarial_air_def adversarial_water_def)
  have inputs: "air_aqi adversarial_air = 500" "water_groundwater_level adversarial_water = 100"
    by (simp_all add: adversarial_air_def adversarial_water_def)
  show ?thesis
    using wellbeing_index_clamped [of "Some adversarial_air" "Some adversarial_water" None
        simulated_client "sample_env no_fault" "init_db empty_db" 1 ?D ?R] run val fields adv inputs
    by simp
qed

text \<open>
  Claim C3, counterexample: the placeholder as username resolves to Live when
  \<^verbatim>\<open>earthaccess\<close> is missing, and two proper credentials resolve to Simulated when the
  login call raises.
\<close>

theorem engine_mode_counterexample:
  "authenticated (NASAAPIClient_init ''your_earthdata_username_here'' ''secret'' [] EarthaccessMissing)
     \<noteq> spec_live ''your_earthdata_username_here'' ''secret'' \<and>
   authenticated (NASAAPIClient_init ''alice'' ''secret'' [] (LoginRaises ConnectionError))
     \<noteq> spec_live ''alice'' ''secret''"
  by (simp add: authenticated_init spec_live_def placeholder_def)

text \<open>
  Claim C3, amended. The mode is Live exactly when both credential strings are non-empty
  and \<^verbatim>\<open>setup_authentication\<close> succeeds: \<^verbatim>\<open>earthaccess\<close> cannot be imported (then string
  presence alone decides, without any call), or its login call returns. When the login call
  raises anything but ImportError the mode is Simulated. The placeholder is a non-empty
  string like any other.
\<close>

theorem engine_mode_resolution:
  "authenticated (NASAAPIClient_init u p k ea) =
     (u \<noteq> [] \<and> p \<noteq> [] \<and> (ea = EarthaccessMissing \<or> ea = LoginReturns \<or> ea = LoginRaises ImportError))"
  by (rule authenticated_init)

text \<open>
  Claim C3, witness: the four presence combinations without \<^verbatim>\<open>earthaccess\<close>, the
  placeholder with a login that returns, and a login that raises.
\<close>

theorem engine_mode_resolution_witness:
  "authenticated (NASAAPIClient_init ''alice'' ''secret'' [] EarthaccessMissing) \<and>
   \<not> authenticated (NASAAPIClient_init [] ''secret'' [] EarthaccessMissing) \<and>
   \<not> authenticated (NASAAPIClient_init ''alice'' [] [] EarthaccessMissing) \<and>
   \<not> authenticated (NASAAPIClient_init [] [] [] EarthaccessMissing) \<and>
   authenticated (NASAAPIClient_init placeholder placeholder [] LoginReturns) \<and>
   \<not> authenticated (NASAAPIClient_init ''alice'' ''secret'' [] (LoginRaises ConnectionError))"
  using engine_mode_resolution [of "''alice''" "''secret''" "[]" EarthaccessMissing]
    engine_mode_resolution [of "[]" "''secret''" "[]" EarthaccessMissing]
    engine_mode_resolution [of "''alice''" "[]" "[]" EarthaccessMissing]
    engine_mode_resolution [of "[]" "[]" "[]" EarthaccessMissing]
    engine_mode_resolution [of placeholder placeholder "[]" LoginReturns]
    engine_mode_resolution [of "''alice''" "''secret''" "[]" "LoginRaises ConnectionError"]
  by (simp add: placeholder_def)

text \<open>
  Claim C5. With draws as the \<^verbatim>\<open>random\<close> module delivers them, every output of the three
  simulation methods lies in the documented closed ranges: air \<open>no2\<close> in \<open>[10, 50]\<close>,
  \<open>o3\<close> in \<open>[20, 80]\<close>, \<open>pm25\<close> in \<open>[5, 35]\<close>, \<open>so2\<close> in \<open>[1, 15]\<close>, \<open>aqi\<close> an integer
  in \<open>[50, 150]\<close>; water \<open>groundwater_level\<close> in \<open>[-20, 20]\<close>, \<open>precipitation\<close> in
  \<open>[0, 15]\<close>, \<open>flood_risk\<close> one of Low, Medium, High; vegetation \<open>ndvi\<close> in
  \<open>[0.2, 0.8]\<close>, \<open>evi\<close> in \<open>[0.1, 0.6]\<close>, \<open>green_coverage\<close> in \<open>[15, 65]\<close>,
  \<open>temperature\<close> in \<open>[20, 35]\<close>.
\<close>

theorem simulate_in_documented_ranges:
  "air_draws_ok ra \<Longrightarrow> water_draws_ok rw \<Longrightarrow> veg_draws_ok rv \<Longrightarrow>
     air_in_range (simulate_air_quality_data ra) \<and>
     water_in_range (simulate_water_data rw) \<and>
     veg_in_range (simulate_vegetation_data rv)"
  by (simp add: simulate_air_in_range simulate_water_in_range simulate_veg_in_range)

text \<open>Claim C5, witness: the sample draws, which reach the bounds 150, 10 and -20.\<close>

theorem simulate_in_documented_ranges_witness:
  "air_draws_ok sample_air_draws \<and> water_draws_ok sample_water_draws \<and> veg_draws_ok sample_veg_draws \<and>
   air_in_range (simulate_air_quality_data sample_air_draws) \<and>
   water_in_range (simulate_water_data sample_water_draws) \<and>
   veg_in_range (simulate_vegetation_data sample_veg_draws) \<and>
   air_aqi (simulate_air_quality_data sample_air_draws) = 150 \<and>
   air_no2 (simulate_air_quality_data sample_air_draws) = 10 \<and>
   water_groundwater_level (simulate_water_data sample_water_draws) = - 20 \<and>
   water_flood_risk (simulate_water_data sample_water_draws) = ''High''"
proof -
  have vals: "air_aqi (simulate_air_quality_data sample_air_draws) = 150"
    "air_no2 (simulate_air_quality_data sample_air_draws) = 10"
    "water_groundwater_level (simulate_water_data sample_water_draws) = - 20"
    "water_flood_risk (simulate_water_data sample_water_draws) = ''High''"
    by (simp_all add: simulate_air_quality_data_def simulate_water_data_def sample_air_draws_def
        sample_water_draws_def uniform_def randint_def choice_def)
  show ?thesis
    using simulate_in_documented_ranges [OF sample_draws_ok(1) sample_draws_ok(2) sample_draws_ok(3)]
      sample_draws_ok vals
    by simp
qed

text \<open>
  Claim C6. The alerts come in the order air quality, flood risk, water stress: an air
  alert iff the latest air row has \<open>aqi > 100\<close>, of severity danger iff \<open>aqi \<ge> 150\<close> and
  warning otherwise; a flood alert of severity danger iff the latest water row has
  \<open>flood_risk = High\<close>; a water stress warning iff its \<open>groundwater_level < -15\<close>. A
  missing latest row contributes no alert and no error. The endpoint evaluates the latest
  rows of the location and writes nothing; an id that does not fit a 64-bit INTEGER makes
  its lookup raise.
\<close>

theorem alert_checks:
  "kinds (evaluate_alerts latest_air latest_water) =
     (if \<exists>a. latest_air = Some a \<and> 100 < air_aqi (obs a)
      then [(''air_quality'',
             if \<exists>a. latest_air = Some a \<and> 150 \<le> air_aqi (obs a) then ''danger'' else ''warning'')]
      else []) @
     (if \<exists>w. latest_water = Some w \<and> water_flood_risk (obs w) = ''High''
      then [(''flood_risk'', ''danger'')] else []) @
     (if \<exists>w. latest_water = Some w \<and> water_groundwater_level (obs w) < - 15
      then [(''water_stress'', ''warning'')] else []) \<and>
   (sqlite_int_ok lid \<longrightarrow>
      get_alerts d lid =
        (d, Inr (evaluate_alerts (fetchone (select_recent air_timestamp (air_quality d) lid 1))
              (fetchone (select_recent water_timestamp (water_data d) lid 1))))) \<and>
   (\<not> sqlite_int_ok lid \<longrightarrow> get_alerts d lid = (d, Inl internal_error))"
proof -
  have "kinds (evaluate_alerts latest_air latest_water) =
     (if \<exists>a. latest_air = Some a \<and> 100 < air_aqi (obs a)
      then [(''air_quality'',
             if \<exists>a. latest_air = Some a \<and> 150 \<le> air_aqi (obs a) then ''danger'' else ''warning'')]
      else []) @
     (if \<exists>w. latest_water = Some w \<and> water_flood_risk (obs w) = ''High''
      then [(''flood_risk'', ''danger'')] else []) @
     (if \<exists>w. latest_water = Some w \<and> water_groundwater_level (obs w) < - 15
      then [(''water_stress'', ''warning'')] else [])"
    by (cases latest_air; cases latest_water) (auto simp: evaluate_alerts_def kinds_def)
  then show ?thesis
    using alerts_result [of lid d] alerts_overflow [of lid d] by blast
qed

text \<open>
  Claim C6, witness: \<open>aqi = 160\<close>, \<open>flood_risk = High\<close>, \<open>groundwater_level = -16\<close> give
  exactly the three alerts in the fixed order, also through the endpoint; missing rows are
  skipped.
\<close>

theorem alert_checks_witness:
  "air_aqi (obs alert_air_row) = 160 \<and> water_flood_risk (obs alert_water_row) = ''High'' \<and>
   water_groundwater_level (obs alert_water_row) = - 16 \<and>
   kinds (evaluate_alerts (Some alert_air_row) (Some alert_water_row)) =
     [(''air_quality'', ''danger''), (''flood_risk'', ''danger''), (''water_stress'', ''warning'')] \<and>
   sqlite_int_ok 1 \<and>
   get_alerts alert_db 1 = (alert_db, Inr (evaluate_alerts (Some alert_air_row) (Some alert_water_row))) \<and>
   kinds (evaluate_alerts None None) = [] \<and>
   kinds (evaluate_alerts None (Some alert_water_row)) =
     [(''flood_risk'', ''danger''), (''water_stress'', ''warning'')] \<and>
   kinds (evaluate_alerts (Some alert_air_row) None) = [(''air_quality'', ''danger'')]"
proof -
  have rows: "air_aqi (obs alert_air_row) = 160" "water_flood_risk (obs alert_water_row) = ''High''"
    "water_groundwater_level (obs alert_water_row) = - 16"
    by (simp_all add: alert_air_row_def alert_water_row_def)
  have latest:
    "fetchone (select_recent air_timestamp (air_quality alert_db) 1 1) = Some alert_air_row"
    "fetchone (select_recent water_timestamp (water_data alert_db) 1 1) = Some alert_water_row"
    by (simp_all add: alert_db_def select_recent_def order_by_timestamp_desc_def sql_limit_def
        fetchone_def alert_air_row_def alert_water_row_def)
  have one: "sqlite_int_ok 1"
    by (simp add: sqlite_int_ok_def)
  show ?thesis
    using alert_checks [of "Some alert_air_row" "Some alert_water_row" 1 alert_db]
      alert_checks [of None None 1 alert_db]
      alert_checks [of None "Some alert_water_row" 1 alert_db]
      alert_checks [of "Some alert_air_row" None 1 alert_db]
      rows latest one
    by simp
qed

text \<open>
  Claim C2, counterexample: when the INSERT into \<^verbatim>\<open>api_logs\<close> is rejected, the query
  reports failure, yet the three observation rows of that query are durable.
\<close>

theorem dashboard_batch_counterexample:
  "log_fault InsertApiLog \<and>
   snd (get_dashboard_data simulated_client (sample_env log_fault) (init_db empty_db) 1) =
     Inl (ServerError ''Failed to retrieve NASA data'') \<and>
   air_quality (init_db empty_db) = [] \<and> water_data (init_db empty_db) = [] \<and>
   vegetation (init_db empty_db) = [] \<and>
   length (air_quality (fst (get_dashboard_data simulated_client (sample_env log_fault) (init_db empty_db) 1))) = 1 \<and>
   length (water_data (fst (get_dashboard_data simulated_client (sample_env log_fault) (init_db empty_db) 1))) = 1 \<and>
   length (vegetation (fst (get_dashboard_data simulated_client (sample_env log_fault) (init_db empty_db) 1))) = 1"
proof -
  have e: "air_quality (init_db empty_db) = []" "water_data (init_db empty_db) = []"
    "vegetation (init_db empty_db) = []"
    by (simp_all add: init_db_def empty_db_def)
  have r: "get_dashboard_data simulated_client (sample_env log_fault) (init_db empty_db) 1 =
     (with_observations (init_db empty_db) 1 (simulate_air_quality_data sample_air_draws)
        (simulate_water_data sample_water_draws) (simulate_vegetation_data sample_veg_draws), failed)"
    by (simp add: sample_dashboard log_fault_def)
  show ?thesis
    unfolding r using e by (simp add: log_fault_def failed_def with_observations_def)
qed

text \<open>
  Claim C2, amended. For a dashboard query of an existing location, one that the lookup
  of the id finds, the three observation INSERTs form one atomic batch: if any of them, or
  the commit after them, fails, the database is unchanged and the query reports failure.
  The audit row is written in a second transaction after that commit: if its INSERT or
  its commit fails, the query reports failure, the three observation rows stay and no
  audit row is written. Without a fault the three rows and the audit row are durable and
  the query succeeds.
\<close>

theorem observation_batch_atomic:
  assumes "select_location d lid = Inr (Some loc)"
  shows "\<exists>air water veg.
    get_air_quality_data self (q_vendor_air env) (q_air env) (loc_latitude loc) (loc_longitude loc) None = Inr air \<and>
    get_water_security_data self (q_vendor_water env) (q_water env) (loc_latitude loc) (loc_longitude loc) None = Inr water \<and>
    get_vegetation_data self (q_vendor_veg env) (q_veg env) (loc_latitude loc) (loc_longitude loc) None = Inr veg \<and>
    (q_faults env InsertAir \<or> q_faults env InsertWater \<or> q_faults env InsertVegetation \<or>
     q_faults env CommitObservations \<longrightarrow>
       get_dashboard_data self env d lid = (d, failed)) \<and>
    (\<not> (q_faults env InsertAir \<or> q_faults env InsertWater \<or> q_faults env InsertVegetation \<or>
        q_faults env CommitObservations) \<and>
     (q_faults env InsertApiLog \<or> q_faults env CommitLog) \<longrightarrow>
       get_dashboard_data self env d lid = (with_observations d lid air water veg, failed)) \<and>
    (\<not> (q_faults env InsertAir \<or> q_faults env InsertWater \<or> q_faults env InsertVegetation \<or>
        q_faults env CommitObservations) \<and>
     \<not> (q_faults env InsertApiLog \<or> q_faults env CommitLog) \<longrightarrow>
       get_dashboard_data self env d lid =
         (with_log (with_observations d lid air water veg) loc,
          Inr (response_of self env loc air water veg)))"
proof -
  obtain air where a: "get_air_quality_data self (q_vendor_air env) (q_air env) (loc_latitude loc) (loc_longitude loc) None = Inr air"
    using get_air_total by blast
  obtain water where w: "get_water_security_data self (q_vendor_water env) (q_water env) (loc_latitude loc) (loc_longitude loc) None = Inr water"
    using get_water_total by blast
  obtain veg where g: "get_vegetation_data self (q_vendor_veg env) (q_veg env) (loc_latitude loc) (loc_longitude loc) None = Inr veg"
    using get_veg_total by blast
  show ?thesis
    using a w g dashboard_result [OF assms a w g] by auto
qed

text \<open>
  Claim C2, witness: on the fresh database a fault at the third observation INSERT leaves
  nothing behind; a fault at the audit INSERT leaves the three observation rows.
\<close>

theorem observation_batch_atomic_witness:
  "select_location (init_db empty_db) 1 = Inr (Some new_delhi) \<and>
   vegetation_fault InsertVegetation \<and>
   get_dashboard_data simulated_client (sample_env vegetation_fault) (init_db empty_db) 1 =
     (init_db empty_db, failed) \<and>
   get_dashboard_data simulated_client (sample_env log_fault) (init_db empty_db) 1 =
     (with_observations (init_db empty_db) 1 (simulate_air_quality_data sample_air_draws)
        (simulate_water_data sample_water_draws) (simulate_vegetation_data sample_veg_draws), failed) \<and>
   api_logs (with_observations (init_db empty_db) 1 (simulate_air_quality_data sample_air_draws)
        (simulate_water_data sample_water_draws) (simulate_vegetation_data sample_veg_draws)) = []"
proof -
  have q: "q_faults (sample_env vegetation_fault) = vegetation_fault"
    "q_faults (sample_env log_fault) = log_fault"
    "q_air (sample_env log_fault) = sample_air_draws"
    "q_water (sample_env log_fault) = sample_water_draws"
    "q_veg (sample_env log_fault) = sample_veg_draws"
    by (simp_all add: sample_env_def)
  have f: "vegetation_fault InsertVegetation" "\<not> log_fault InsertAir" "\<not> log_fault InsertWater"
    "\<not> log_fault InsertVegetation" "\<not> log_fault CommitObservations" "log_fault InsertApiLog"
    by (simp_all add: vegetation_fault_def log_fault_def)
  have empty: "api_logs (with_observations (init_db empty_db) 1 (simulate_air_quality_data sample_air_draws)
        (simulate_water_data sample_water_draws) (simulate_vegetation_data sample_veg_draws)) = []"
    by (simp add: with_observations_def init_db_def empty_db_def)
  show ?thesis
    using observation_batch_atomic [OF find_new_delhi, of simulated_client "sample_env vegetation_fault"]
      observation_batch_atomic [OF find_new_delhi, of simulated_client "sample_env log_fault"]
      find_new_delhi q f empty
    by (auto simp: simulated_fetch)
qed

text \<open>
  Claim C4. For every client, vendor, latitude, longitude and date each of the three
  fetchers returns an observation and never an exception. Whatever the \<^verbatim>\<open>try\<close> block
  raises is turned into a simulated observation, and when no vendor path succeeds (no API
  key or no good response on the first path, no good response of the open-data request;
  the second path never yields an observation) the result is the simulated observation.
\<close>

theorem fetchers_never_raise:
  "(\<exists>x. get_air_quality_data self v ra la lo dt = Inr x) \<and>
   (\<exists>x. get_water_security_data self v rw la lo dt = Inr x) \<and>
   (\<exists>x. get_vegetation_data self v rv la lo dt = Inr x) \<and>
   (air_try self v ra la lo (default_date v dt) = Inl e \<longrightarrow>
      get_air_quality_data self v ra la lo dt = Inr (simulate_air_quality_data ra)) \<and>
   (water_try self v rw la lo (default_date v dt) = Inl e \<longrightarrow>
      get_water_security_data self v rw la lo dt = Inr (simulate_water_data rw)) \<and>
   (vegetation_try self v rv la lo (default_date v dt) = Inl e \<longrightarrow>
      get_vegetation_data self v rv la lo dt = Inr (simulate_vegetation_data rv)) \<and>
   (\<not> (api_key self \<noteq> [] \<and> responds_ok v assets_url (assets_params self la lo (default_date v dt))) \<and>
    \<not> responds_ok v opendata_url [] \<longrightarrow>
      get_air_quality_data self v ra la lo dt = Inr (simulate_air_quality_data ra)) \<and>
   (\<not> (api_key self \<noteq> [] \<and> responds_ok v imagery_url (imagery_params self la lo (default_date v dt))) \<longrightarrow>
      get_water_security_data self v rw la lo dt = Inr (simulate_water_data rw)) \<and>
   (\<not> (api_key self \<noteq> [] \<and> responds_ok v assets_url (assets_params self la lo (default_date v dt))) \<longrightarrow>
      get_vegetation_data self v rv la lo dt = Inr (simulate_vegetation_data rv))"
  using get_air_total [of self v ra la lo dt] get_water_total [of self v rw la lo dt]
    get_veg_total [of self v rv la lo dt]
    air_absorbed [of self v ra la lo dt e] water_absorbed [of self v rw la lo dt e]
    veg_absorbed [of self v rv la lo dt e]
    air_exhausted [of self v la lo dt ra] water_exhausted [of self v la lo dt rw]
    veg_exhausted [of self v la lo dt rv]
  by blast

text \<open>
  Claim C4, witness: an authenticated client with a vendor whose requests raise, with a
  vendor that answers 503 and finds nothing, and with coordinates that are not numbers.
\<close>

theorem fetchers_never_raise_witness:
  "authenticated live_client \<and> api_key live_client \<noteq> [] \<and>
   air_try live_client offline_vendor sample_air_draws (VFloat 28.6139) (VFloat 77.2090)
     (default_date offline_vendor None) = Inl ConnectionError \<and>
   get_air_quality_data live_client offline_vendor sample_air_draws (VFloat 28.6139) (VFloat 77.2090) None =
     Inr (simulate_air_quality_data sample_air_draws) \<and>
   \<not> responds_ok failing_vendor assets_url
       (assets_params live_client (VFloat 28.6139) (VFloat 77.2090) (default_date failing_vendor None)) \<and>
   \<not> responds_ok failing_vendor imagery_url
       (imagery_params live_client (VFloat 28.6139) (VFloat 77.2090) (default_date failing_vendor None)) \<and>
   \<not> responds_ok failing_vendor opendata_url [] \<and>
   get_air_quality_data live_client failing_vendor sample_air_draws (VFloat 28.6139) (VFloat 77.2090) None =
     Inr (simulate_air_quality_data sample_air_draws) \<and>
   get_water_security_data live_client failing_vendor sample_water_draws (VFloat 28.6139) (VFloat 77.2090) None =
     Inr (simulate_water_data sample_water_draws) \<and>
   get_vegetation_data live_client failing_vendor sample_veg_draws (VStr ''north'') VNone None =
     Inr (simulate_vegetation_data sample_veg_draws)"
proof -
  have raise: "air_try live_client offline_vendor sample_air_draws (VFloat 28.6139) (VFloat 77.2090)
     (default_date offline_vendor None) = Inl ConnectionError"
    by (simp add: air_try_def method1_def live_client_on offline_vendor_def)
  have down: "\<not> responds_ok failing_vendor url params" for url params
    by (simp add: responds_ok_def failing_vendor_def)
  show ?thesis
    using fetchers_never_raise [of live_client offline_vendor sample_air_draws "VFloat 28.6139" "VFloat 77.2090"
        None sample_water_draws sample_veg_draws ConnectionError]
      fetchers_never_raise [of live_client failing_vendor sample_air_draws "VFloat 28.6139" "VFloat 77.2090"
        None sample_water_draws sample_veg_draws ConnectionError]
      fetchers_never_raise [of live_client failing_vendor sample_air_draws "VStr ''north''" VNone
        None sample_water_draws sample_veg_draws ConnectionError]
      raise down live_client_on
    by simp
qed




text \<open>
  Claim C8. With draws as the \<^verbatim>\<open>random\<close> module delivers them, whatever a fetcher returns
  lies in the documented ranges of its domain, under a vendor tag as under
  \<^verbatim>\<open>SIMULATION\<close>, because the processing of a vendor response uses the generators of the
  simulation. Hence every observation row of every database that the service reaches from
  a fresh one lies in these ranges.
\<close>

theorem observations_in_range:
  "(air_draws_ok ra \<longrightarrow>
      air_in_range (process_nasa_air_data ra) \<and>
      (\<exists>x. get_air_quality_data self v ra la lo dt = Inr x \<and> air_in_range x)) \<and>
   (water_draws_ok rw \<longrightarrow>
      water_in_range (process_nasa_water_data rw) \<and>
      (\<exists>x. get_water_security_data self v rw la lo dt = Inr x \<and> water_in_range x)) \<and>
   (veg_draws_ok rv \<longrightarrow>
      veg_in_range (process_nasa_vegetation_data rv) \<and>
      (\<exists>x. get_vegetation_data self v rv la lo dt = Inr x \<and> veg_in_range x)) \<and>
   (reachable d \<longrightarrow> db_in_range d)"
proof -
  have "\<exists>x. get_air_quality_data self v ra la lo dt = Inr x \<and> air_in_range x" if "air_draws_ok ra"
    using get_air_total [of self v ra la lo dt] get_air_in_range [OF that] by blast
  moreover have "\<exists>x. get_water_security_data self v rw la lo dt = Inr x \<and> water_in_range x" if "water_draws_ok rw"
    using get_water_total [of self v rw la lo dt] get_water_in_range [OF that] by blast
  moreover have "\<exists>x. get_vegetation_data self v rv la lo dt = Inr x \<and> veg_in_range x" if "veg_draws_ok rv"
    using get_veg_total [of self v rv la lo dt] get_veg_in_range [OF that] by blast
  ultimately show ?thesis
    using reachable_in_range process_air_in_range process_water_in_range process_veg_in_range
    by blast
qed

text \<open>
  Claim C8, witness: the sample draws under the vendor tag, and the database after one
  dashboard query.
\<close>

theorem observations_in_range_witness:
  "air_draws_ok sample_air_draws \<and> water_draws_ok sample_water_draws \<and> veg_draws_ok sample_veg_draws \<and>
   air_source (process_nasa_air_data sample_air_draws) = ''NASA_TEMPO_OMI'' \<and>
   air_in_range (process_nasa_air_data sample_air_draws) \<and>
   water_in_range (process_nasa_water_data sample_water_draws) \<and>
   veg_in_range (process_nasa_vegetation_data sample_veg_draws) \<and>
   reachable (fst (get_dashboard_data simulated_client (sample_env no_fault) (init_db empty_db) 1)) \<and>
   length (air_quality (fst (get_dashboard_data simulated_client (sample_env no_fault) (init_db empty_db) 1))) = 1 \<and>
   db_in_range (fst (get_dashboard_data simulated_client (sample_env no_fault) (init_db empty_db) 1))"
proof -
  let ?d = "fst (get_dashboard_data simulated_client (sample_env no_fault) (init_db empty_db) 1)"
  have ok: "env_ok (sample_env no_fault)"
    using sample_draws_ok by (simp add: env_ok_def sample_env_def)
  have r: "reachable ?d"
    by (rule reachable.queried [OF reachable.fresh ok])
  have e: "air_quality (init_db empty_db) = []"
    by (simp add: init_db_def empty_db_def)
  have n: "length (air_quality ?d) = 1"
    using e by (simp add: sample_dashboard no_fault_def with_log_def with_observations_def)
  have t: "air_source (process_nasa_air_data sample_air_draws) = ''NASA_TEMPO_OMI''"
    by (simp add: process_nasa_air_data_def)
  show ?thesis
    using observations_in_range [of sample_air_draws simulated_client offline_vendor VNone VNone None
        sample_water_draws sample_veg_draws ?d] sample_draws_ok r n t
    by simp
qed




text \<open>
  Claim C10, counterexample: the id \<open>2^63\<close>, which no location has, is answered with the
  internal error and not with not-found.
\<close>

theorem not_found_counterexample:
  "9223372036854775808 \<notin> loc_id ` set (locations (init_db empty_db)) \<and>
   get_dashboard_data simulated_client (sample_env no_fault) (init_db empty_db) 9223372036854775808 =
     (init_db empty_db, Inl internal_error) \<and>
   internal_error \<noteq> NotFound ''Location not found''"
proof -
  have a: "9223372036854775808 \<notin> loc_id ` set (locations (init_db empty_db))"
    by (simp add: init_db_def empty_db_def sample_locations_def new_delhi_def)
  have b: "select_location (init_db empty_db) 9223372036854775808 = Inl OverflowError"
    by (simp add: select_location_def sqlite_int_ok_def)
  show ?thesis
    using a dashboard_overflow [OF b] by (simp add: internal_error_def)
qed

text \<open>
  Claim C10, amended. A dashboard query for an id that fits a 64-bit INTEGER and that no
  location has returns the not-found error; for an id beyond 64 bits the lookup itself
  raises and the answer is the internal error. Both happen before any fetch or write and
  leave the database as it was, whatever the vendor, the draws and the store would have
  done. A dashboard query that does not succeed leaves \<^verbatim>\<open>api_logs\<close> unchanged; one that
  succeeds adds exactly one row to it.
\<close>

theorem not_found_leaves_tables:
  "(sqlite_int_ok lid \<and> lid \<notin> loc_id ` set (locations d) \<longrightarrow>
      get_dashboard_data self env d lid = (d, Inl (NotFound ''Location not found''))) \<and>
   (\<not> sqlite_int_ok lid \<longrightarrow> get_dashboard_data self env d lid = (d, Inl internal_error)) \<and>
   ((\<forall>data. snd (get_dashboard_data self env d lid) \<noteq> Inr data) \<longrightarrow>
      api_logs (fst (get_dashboard_data self env d lid)) = api_logs d) \<and>
   ((\<exists>data. snd (get_dashboard_data self env d lid) = Inr data) \<longrightarrow>
      length (api_logs (fst (get_dashboard_data self env d lid))) = length (api_logs d) + 1)"
proof -
  have nf: "get_dashboard_data self env d lid = (d, Inl (NotFound ''Location not found''))"
    if "sqlite_int_ok lid" "lid \<notin> loc_id ` set (locations d)"
  proof -
    have "find (\<lambda>l. loc_id l = lid) (locations d) = None"
      using that(2) by (auto simp: find_None_iff)
    then have "select_location d lid = Inr None"
      using that(1) by (simp add: select_location_def)
    then show ?thesis by (rule dashboard_not_found)
  qed
  have ov: "get_dashboard_data self env d lid = (d, Inl internal_error)" if "\<not> sqlite_int_ok lid"
  proof -
    have "select_location d lid = Inl OverflowError"
      using that by (simp add: select_location_def)
    then show ?thesis by (rule dashboard_overflow)
  qed
  have logs: "((\<forall>data. snd (get_dashboard_data self env d lid) \<noteq> Inr data) \<longrightarrow>
      api_logs (fst (get_dashboard_data self env d lid)) = api_logs d) \<and>
   ((\<exists>data. snd (get_dashboard_data self env d lid) = Inr data) \<longrightarrow>
      length (api_logs (fst (get_dashboard_data self env d lid))) = length (api_logs d) + 1)"
  proof (cases rule: dashboard_cases [of self env d lid])
    case unchanged
    then show ?thesis by simp
  next
    case (observed loc air water veg)
    then show ?thesis by (simp add: with_observations_def failed_def)
  next
    case (logged loc air water veg)
    then show ?thesis by (simp add: with_observations_def with_log_def)
  qed
  show ?thesis using nf ov logs by blast
qed

text \<open>
  Claim C10, witness: id 99 on the fresh database is not found, id \<open>2^63\<close> gives the
  internal error; a failed query of location 1 logs nothing, a successful one logs one
  row.
\<close>

theorem not_found_leaves_tables_witness:
  "sqlite_int_ok 99 \<and> 99 \<notin> loc_id ` set (locations (init_db empty_db)) \<and>
   get_dashboard_data simulated_client (sample_env no_fault) (init_db empty_db) 99 =
     (init_db empty_db, Inl (NotFound ''Location not found'')) \<and>
   \<not> sqlite_int_ok 9223372036854775808 \<and>
   get_dashboard_data simulated_client (sample_env no_fault) (init_db empty_db) 9223372036854775808 =
     (init_db empty_db, Inl internal_error) \<and>
   snd (get_dashboard_data simulated_client (sample_env log_fault) (init_db empty_db) 1) = failed \<and>
   api_logs (fst (get_dashboard_data simulated_client (sample_env log_fault) (init_db empty_db) 1)) = [] \<and>
   length (api_logs (fst (get_dashboard_data simulated_client (sample_env no_fault) (init_db empty_db) 1))) = 1"
proof -
  have a: "99 \<notin> loc_id ` set (locations (init_db empty_db))"
    by (simp add: init_db_def empty_db_def sample_locations_def new_delhi_def)
  have ok: "sqlite_int_ok 99" "\<not> sqlite_int_ok 9223372036854775808"
    by (simp_all add: sqlite_int_ok_def)
  have b: "snd (get_dashboard_data simulated_client (sample_env log_fault) (init_db empty_db) 1) = failed"
    by (simp add: sample_dashboard log_fault_def)
  have c: "\<exists>data. snd (get_dashboard_data simulated_client (sample_env no_fault) (init_db empty_db) 1) = Inr data"
    by (simp add: sample_dashboard no_fault_def)
  have e: "api_logs (init_db empty_db) = []"
    by (simp add: init_db_def empty_db_def)
  show ?thesis
    using not_found_leaves_tables [of 99 "init_db empty_db" simulated_client "sample_env no_fault"]
      not_found_leaves_tables [of 9223372036854775808 "init_db empty_db" simulated_client
        "sample_env no_fault"]
      not_found_leaves_tables [of 1 "init_db empty_db" simulated_client "sample_env log_fault"]
      not_found_leaves_tables [of 1 "init_db empty_db" simulated_client "sample_env no_fault"]
      a ok b c e
    by (simp add: failed_def)
qed

end
